theory Spec2Isabelle
  imports Main
begin

section \<open>The page as the language-tabs script sees it\<close>

text \<open>
  The script \<^verbatim>\<open>src/theme/language-tabs.js\<close> reads and writes the DOM of one page.
  The model keeps what the script touches. A tab button (\<^verbatim>\<open>.language-tabs-trigger\<close>) has
  its \<^verbatim>\<open>data-language-tabs-value\<close> (absent in markup: \<open>None\<close>), the class
  \<^verbatim>\<open>is-active\<close> and the attributes \<^verbatim>\<open>aria-selected\<close> and \<^verbatim>\<open>tabindex\<close>. A tab panel
  (\<^verbatim>\<open>.language-tabs-panel\<close>) has its value and the class. A tab group
  (\<^verbatim>\<open>.language-tabs\<close>) has its \<^verbatim>\<open>data-language-tabs-group\<close> and its buttons and
  panels in document order. Groups are not nested: each button and panel belongs to
  one group, as the markup contract of the preprocessor has it.
\<close>

record tab_button =
  b_value :: "string option"
  b_active :: bool
  aria_selected :: "string option"
  tabindex :: "string option"

record tab_panel =
  p_value :: "string option"
  p_active :: bool

record tab_group =
  group_id :: "string option"
  buttons :: "tab_button list"
  panels :: "tab_panel list"

subsection \<open>activateTabValueInContainer (lines 16-45)\<close>

definition getLanguageTabButtons :: "tab_group \<Rightarrow> tab_button list" where
  "getLanguageTabButtons g = buttons g"

definition getLanguageTabPanels :: "tab_group \<Rightarrow> tab_panel list" where
  "getLanguageTabPanels g = panels g"

text \<open>The body of the first loop (lines 30-34), for one button.\<close>

definition set_button :: "string \<Rightarrow> tab_button \<Rightarrow> tab_button" where
  "set_button selectedTabValue tabButton =
     (let isActiveTab = (b_value tabButton = Some selectedTabValue) in
      tabButton\<lparr> b_active := isActiveTab,
                 aria_selected := Some (if isActiveTab then ''true'' else ''false''),
                 tabindex := Some (if isActiveTab then ''0'' else ''-1'') \<rparr>)"

text \<open>The body of the second loop (lines 38-41), for one panel.\<close>

definition set_panel :: "string \<Rightarrow> tab_panel \<Rightarrow> tab_panel" where
  "set_panel selectedTabValue tabPanel =
     tabPanel\<lparr> p_active := (p_value tabPanel = Some selectedTabValue) \<rparr>"

definition hasSelectedTabValue :: "tab_group \<Rightarrow> string \<Rightarrow> bool" where
  "hasSelectedTabValue g selectedTabValue =
     list_ex (\<lambda>tabButton. b_value tabButton = Some selectedTabValue) (getLanguageTabButtons g)"

text \<open>The result is the returned boolean and the group after the call.\<close>

definition activateTabValueInContainer :: "tab_group \<Rightarrow> string \<Rightarrow> bool \<times> tab_group" where
  "activateTabValueInContainer g selectedTabValue =
     (if \<not> hasSelectedTabValue g selectedTabValue then (False, g)
      else (True, g\<lparr> buttons := map (set_button selectedTabValue) (getLanguageTabButtons g),
                      panels := map (set_panel selectedTabValue) (getLanguageTabPanels g) \<rparr>))"

text \<open>How many buttons and panels of a group carry the class \<^verbatim>\<open>is-active\<close>.\<close>

definition active_buttons :: "tab_group \<Rightarrow> tab_button list" where
  "active_buttons g = filter b_active (buttons g)"

definition active_panels :: "tab_group \<Rightarrow> tab_panel list" where
  "active_panels g = filter p_active (panels g)"

definition buttons_with :: "tab_group \<Rightarrow> string \<Rightarrow> tab_button list" where
  "buttons_with g v = filter (\<lambda>b. b_value b = Some v) (buttons g)"

definition panels_with :: "tab_group \<Rightarrow> string \<Rightarrow> tab_panel list" where
  "panels_with g v = filter (\<lambda>p. p_value p = Some v) (panels g)"


section \<open>Selectors built from a group identifier\<close>

text \<open>
  \<^verbatim>\<open>activateTabValueForGroup\<close> (line 58) pastes the group identifier into a selector
  text and hands it to \<^verbatim>\<open>document.querySelectorAll\<close>, which parses the text as a CSS
  selector list and throws a \<^verbatim>\<open>SyntaxError\<close> when it is not one. The model parses
  the fragment of CSS that such a text can stay in: class selectors, attribute
  selectors with a double-quoted string, compounds of them and comma-separated
  lists. Three results: the selector list (\<open>Parsed\<close>), a text that is no selector
  (\<open>InvalidSelector\<close>), and a text that leaves the fragment (\<open>Unmodelled\<close>:
  escapes, combinators, pseudo-classes, other classes and attributes, names that
  are not ASCII, a block left open at the end of the text). \<open>InvalidSelector\<close> is
  given only where no continuation of the text could make it a selector. Strings
  are lists of bytes; inside a CSS string a byte of a character beyond ASCII
  stands for itself.
\<close>

datatype 'a parse_result = Parsed 'a | InvalidSelector | Unmodelled

datatype token =
  TDot | TLBracket | TRBracket | TComma | TEquals | TWhitespace
  | TIdent string | TString string

abbreviation dquote :: char where "dquote \<equiv> CHR 0x22"
abbreviation backslash :: char where "backslash \<equiv> CHR 0x5C"
abbreviation nul :: char where "nul \<equiv> CHR 0x00"

definition is_newline :: "char \<Rightarrow> bool" where
  "is_newline c \<longleftrightarrow> c = CHR 0x0A \<or> c = CHR 0x0D \<or> c = CHR 0x0C"

definition is_whitespace :: "char \<Rightarrow> bool" where
  "is_whitespace c \<longleftrightarrow> is_newline c \<or> c = CHR 0x09 \<or> c = CHR '' ''"

definition is_ident_start :: "char \<Rightarrow> bool" where
  "is_ident_start c \<longleftrightarrow> c \<in> set ''abcdefghijklmnopqrstuvwxyzABCDEFGHIJKLMNOPQRSTUVWXYZ_''"

definition is_ident_char :: "char \<Rightarrow> bool" where
  "is_ident_char c \<longleftrightarrow> is_ident_start c \<or> c \<in> set ''0123456789-''"

datatype lex_mode = Top | InString string | InIdent string

fun emit :: "token \<Rightarrow> token list parse_result \<Rightarrow> token list parse_result" where
  "emit t (Parsed ts) = Parsed (t # ts)"
| "emit t InvalidSelector = InvalidSelector"
| "emit t Unmodelled = Unmodelled"

text \<open>
  The tokenizer, left to right. A string runs to the next double quote; a newline
  inside it makes a bad string, which no selector contains; the end of the text
  closes it. The accumulators hold the characters read so far, last first.
\<close>

function (sequential) tokenize :: "lex_mode \<Rightarrow> string \<Rightarrow> token list parse_result" where
  "tokenize Top [] = Parsed []"
| "tokenize (InString acc) [] = Parsed [TString (rev acc)]"
| "tokenize (InIdent acc) [] = Parsed [TIdent (rev acc)]"
| "tokenize Top (c # cs) =
     (if c = dquote then tokenize (InString []) cs
      else if is_whitespace c then emit TWhitespace (tokenize Top cs)
      else if c = CHR ''.'' then emit TDot (tokenize Top cs)
      else if c = CHR ''['' then emit TLBracket (tokenize Top cs)
      else if c = CHR '']'' then emit TRBracket (tokenize Top cs)
      else if c = CHR '','' then emit TComma (tokenize Top cs)
      else if c = CHR ''='' then emit TEquals (tokenize Top cs)
      else if is_ident_start c then tokenize (InIdent [c]) cs
      else Unmodelled)"
| "tokenize (InString acc) (c # cs) =
     (if c = dquote then emit (TString (rev acc)) (tokenize Top cs)
      else if is_newline c then InvalidSelector
      else if c = backslash \<or> c = nul then Unmodelled
      else tokenize (InString (c # acc)) cs)"
| "tokenize (InIdent acc) (c # cs) =
     (if is_ident_char c then tokenize (InIdent (c # acc)) cs
      else emit (TIdent (rev acc)) (tokenize Top (c # cs)))"
  by pat_completeness auto
termination
  by (relation "measure (\<lambda>(m, cs). 2 * length cs + (case m of InIdent _ \<Rightarrow> 1 | _ \<Rightarrow> 0))")
     auto

text \<open>
  The simple selectors the model can match against a tab group: the class of a
  group and an exact value of its \<^verbatim>\<open>data-language-tabs-group\<close>.
\<close>

datatype simple_selector = ClassLanguageTabs | GroupAttribute string

type_synonym compound_selector = "simple_selector list"

datatype parse_state =
  SelectorStart | InCompound | AfterCompound | AfterDot
  | AttrName | AttrMatcher string | AttrValue string | AttrClose string string

text \<open>
  The parser reads one token at a time; \<open>done\<close> holds the finished compounds and
  \<open>cur\<close> the simple selectors of the current one, last first. Inside an attribute
  selector, after its value, only whitespace, a modifier or the closing bracket can
  follow: any other token makes the text invalid.
\<close>

fun parse ::
  "parse_state \<Rightarrow> compound_selector list \<Rightarrow> compound_selector \<Rightarrow> token list
     \<Rightarrow> compound_selector list parse_result" where
  "parse s done cur [] =
     (case s of
        InCompound \<Rightarrow> Parsed (rev (rev cur # done))
      | AfterCompound \<Rightarrow> Parsed (rev (rev cur # done))
      | _ \<Rightarrow> Unmodelled)"
| "parse SelectorStart done cur (t # ts) =
     (case t of
        TWhitespace \<Rightarrow> parse SelectorStart done cur ts
      | TDot \<Rightarrow> parse AfterDot done cur ts
      | TLBracket \<Rightarrow> parse AttrName done cur ts
      | _ \<Rightarrow> Unmodelled)"
| "parse InCompound done cur (t # ts) =
     (case t of
        TDot \<Rightarrow> parse AfterDot done cur ts
      | TLBracket \<Rightarrow> parse AttrName done cur ts
      | TWhitespace \<Rightarrow> parse AfterCompound done cur ts
      | TComma \<Rightarrow> parse SelectorStart (rev cur # done) [] ts
      | _ \<Rightarrow> Unmodelled)"
| "parse AfterCompound done cur (t # ts) =
     (case t of
        TWhitespace \<Rightarrow> parse AfterCompound done cur ts
      | TComma \<Rightarrow> parse SelectorStart (rev cur # done) [] ts
      | _ \<Rightarrow> Unmodelled)"
| "parse AfterDot done cur (t # ts) =
     (case t of
        TIdent n \<Rightarrow>
          if n = ''language-tabs'' then parse InCompound done (ClassLanguageTabs # cur) ts
          else Unmodelled
      | _ \<Rightarrow> Unmodelled)"
| "parse AttrName done cur (t # ts) =
     (case t of
        TWhitespace \<Rightarrow> parse AttrName done cur ts
      | TIdent n \<Rightarrow> parse (AttrMatcher n) done cur ts
      | _ \<Rightarrow> Unmodelled)"
| "parse (AttrMatcher n) done cur (t # ts) =
     (case t of
        TWhitespace \<Rightarrow> parse (AttrMatcher n) done cur ts
      | TEquals \<Rightarrow> parse (AttrValue n) done cur ts
      | _ \<Rightarrow> Unmodelled)"
| "parse (AttrValue n) done cur (t # ts) =
     (case t of
        TWhitespace \<Rightarrow> parse (AttrValue n) done cur ts
      | TString v \<Rightarrow> parse (AttrClose n v) done cur ts
      | _ \<Rightarrow> Unmodelled)"
| "parse (AttrClose n v) done cur (t # ts) =
     (case t of
        TWhitespace \<Rightarrow> parse (AttrClose n v) done cur ts
      | TRBracket \<Rightarrow>
          if n = ''data-language-tabs-group''
          then parse InCompound done (GroupAttribute v # cur) ts
          else Unmodelled
      | TIdent m \<Rightarrow> Unmodelled
      | _ \<Rightarrow> InvalidSelector)"

definition parse_selector :: "string \<Rightarrow> compound_selector list parse_result" where
  "parse_selector text =
     (case tokenize Top text of
        Parsed ts \<Rightarrow> parse SelectorStart [] [] ts
      | InvalidSelector \<Rightarrow> InvalidSelector
      | Unmodelled \<Rightarrow> Unmodelled)"

fun matches_simple :: "tab_group \<Rightarrow> simple_selector \<Rightarrow> bool" where
  "matches_simple g ClassLanguageTabs = True"
| "matches_simple g (GroupAttribute v) = (group_id g = Some v)"

definition matches_compound :: "tab_group \<Rightarrow> compound_selector \<Rightarrow> bool" where
  "matches_compound g c = list_all (matches_simple g) c"

text \<open>
  \<^verbatim>\<open>document.querySelectorAll\<close> on the groups of the page: the indices of the groups
  that match one of the compounds, in document order. A compound without the class
  of a group could match elements that are no groups, which the page model does not
  hold.
\<close>

definition querySelectorAll :: "tab_group list \<Rightarrow> string \<Rightarrow> nat list parse_result" where
  "querySelectorAll gs text =
     (case parse_selector text of
        Parsed cs \<Rightarrow>
          if list_all (\<lambda>c. ClassLanguageTabs \<in> set c) cs
          then Parsed (filter (\<lambda>i. list_ex (matches_compound (gs ! i)) cs) [0..<length gs])
          else Unmodelled
      | InvalidSelector \<Rightarrow> InvalidSelector
      | Unmodelled \<Rightarrow> Unmodelled)"

text \<open>The template literal of line 58.\<close>

definition group_selector :: "string \<Rightarrow> string" where
  "group_selector groupIdentifier =
     ''.language-tabs[data-language-tabs-group='' @ [dquote] @ groupIdentifier @ [dquote] @ '']''"

text \<open>
  A group identifier that stays inside the string of the selector: no double quote,
  backslash, newline or NUL.
\<close>

definition plain_identifier :: "string \<Rightarrow> bool" where
  "plain_identifier s = list_all (\<lambda>c. c \<noteq> dquote \<and> c \<noteq> backslash \<and> c \<noteq> nul \<and> \<not> is_newline c) s"


section \<open>The page and the operations on it\<close>

text \<open>
  The state of one page view: the tab groups in document order, the two button
  containers of the menu bar (\<^verbatim>\<open>#mdbook-menu-bar .right-buttons\<close> and
  \<^verbatim>\<open>.left-buttons\<close>, \<open>None\<close> when the page has none) with their children, the two
  module variables of lines 1-2, and the tab button that has the keyboard focus
  (group and button index), if one has.
\<close>

record toggle_button =
  title :: string
  t_active :: bool
  aria_pressed :: "string option"
  textContent :: string

datatype header_child = MarkupChild string | SyncToggleButton

record page =
  groups :: "tab_group list"
  right_buttons :: "header_child list option"
  left_buttons :: "header_child list option"
  isGlobalLanguageTabSyncEnabled :: bool
  languageTabsSyncToggleButtonElement :: "toggle_button option"
  focused :: "(nat \<times> nat) option"

datatype js_error = SyntaxError

text \<open>
  How a call ends: it returns, it throws, or it reached a selector the model of
  \<^verbatim>\<open>querySelectorAll\<close> does not cover. In the last case the page that comes
  with \<open>NotModelled\<close> is the page before the call and says nothing about what the
  code does there; \<open>selector_modelled\<close> and \<open>identifiers_modelled\<close> below
  rule the case out.
\<close>

datatype completion = Returned | Threw js_error | NotModelled

text \<open>JavaScript's truthiness of a string that may be undefined or null.\<close>

definition truthy :: "string option \<Rightarrow> bool" where
  "truthy x \<longleftrightarrow> (case x of None \<Rightarrow> False | Some s \<Rightarrow> s \<noteq> [])"

definition getLanguageTabContainerElements :: "page \<Rightarrow> nat list" where
  "getLanguageTabContainerElements st = [0..<length (groups st)]"

text \<open>One iteration of the loops of lines 52-54 and 59-63, on the group at index \<open>i\<close>.\<close>

definition activate_at :: "string \<Rightarrow> nat \<Rightarrow> tab_group list \<Rightarrow> tab_group list" where
  "activate_at selectedTabValue i gs =
     (if i < length gs then gs[i := snd (activateTabValueInContainer (gs ! i) selectedTabValue)]
      else gs)"

definition activateTabValueGlobally :: "page \<Rightarrow> string \<Rightarrow> page" where
  "activateTabValueGlobally st selectedTabValue =
     st\<lparr> groups := fold (activate_at selectedTabValue) (getLanguageTabContainerElements st) (groups st) \<rparr>"

definition activateTabValueForGroup :: "page \<Rightarrow> string \<Rightarrow> string \<Rightarrow> page \<times> completion" where
  "activateTabValueForGroup st groupIdentifier selectedTabValue =
     (case querySelectorAll (groups st) (group_selector groupIdentifier) of
        Parsed matched \<Rightarrow>
          (st\<lparr> groups := fold (activate_at selectedTabValue) matched (groups st) \<rparr>, Returned)
      | InvalidSelector \<Rightarrow> (st, Threw SyntaxError)
      | Unmodelled \<Rightarrow> (st, NotModelled))"

text \<open>Lines 66-76: \<open>None\<close> is the returned null.\<close>

definition getFirstActiveTabValue :: "page \<Rightarrow> string option" where
  "getFirstActiveTabValue st =
     (case find b_active (concat (map getLanguageTabButtons (groups st))) of
        Some tabButton \<Rightarrow> b_value tabButton
      | None \<Rightarrow> None)"

definition updateLanguageTabsSyncToggleButtonState :: "page \<Rightarrow> page" where
  "updateLanguageTabsSyncToggleButtonState st =
     (case languageTabsSyncToggleButtonElement st of
        None \<Rightarrow> st
      | Some el \<Rightarrow>
          st\<lparr> languageTabsSyncToggleButtonElement := Some (el
              \<lparr> t_active := isGlobalLanguageTabSyncEnabled st,
                aria_pressed := Some (if isGlobalLanguageTabSyncEnabled st then ''true'' else ''false''),
                textContent := (if isGlobalLanguageTabSyncEnabled st
                                then ''Sync Tabs: On'' else ''Sync Tabs: Off'') \<rparr>) \<rparr>)"

text \<open>The click listener of the header control (lines 113-125).\<close>

definition syncToggleClick :: "page \<Rightarrow> page" where
  "syncToggleClick st =
     (let st1 = st\<lparr> isGlobalLanguageTabSyncEnabled := \<not> isGlobalLanguageTabSyncEnabled st \<rparr>;
          st2 = updateLanguageTabsSyncToggleButtonState st1
      in if \<not> isGlobalLanguageTabSyncEnabled st2 then st2
         else (let firstActiveTabValue = getFirstActiveTabValue st2
               in if \<not> truthy firstActiveTabValue then st2
                  else activateTabValueGlobally st2 (the firstActiveTabValue)))"

text \<open>
  Lines 96-130. The new button is stored in the module variable, given its state,
  and put first in the right container, or in the left one when there is no right
  one.
\<close>

definition createLanguageTabsSyncToggle :: "page \<Rightarrow> page" where
  "createLanguageTabsSyncToggle st =
     (if length (getLanguageTabContainerElements st) < 2 then st
      else if right_buttons st = None \<and> left_buttons st = None then st
      else
        (let syncToggleButtonElement =
               \<lparr> title = ''Sync selected language across all tab groups'',
                 t_active = False, aria_pressed = None, textContent = [] \<rparr>;
             st1 = updateLanguageTabsSyncToggleButtonState
                     (st\<lparr> languageTabsSyncToggleButtonElement := Some syncToggleButtonElement \<rparr>)
         in case right_buttons st1 of
              Some children \<Rightarrow> st1\<lparr> right_buttons := Some (SyncToggleButton # children) \<rparr>
            | None \<Rightarrow>
                (case left_buttons st1 of
                   Some children \<Rightarrow> st1\<lparr> left_buttons := Some (SyncToggleButton # children) \<rparr>
                 | None \<Rightarrow> st1)))"

text \<open>
  Lines 132-151, for the group at index \<open>i\<close> (an index that names no group of
  the page: nothing to do).
\<close>

definition activateDefaultTab :: "page \<Rightarrow> nat \<Rightarrow> page \<times> completion" where
  "activateDefaultTab st i =
     (let languageTabsContainerElement = groups st ! i;
          groupIdentifier = group_id languageTabsContainerElement
      in if \<not> i < length (groups st) \<or> \<not> truthy groupIdentifier then (st, Returned)
         else (case getLanguageTabButtons languageTabsContainerElement of
                 [] \<Rightarrow> (st, Returned)
               | first # _ \<Rightarrow>
                   (let defaultTabButton =
                          (case find b_active (getLanguageTabButtons languageTabsContainerElement) of
                             Some tabButton \<Rightarrow> tabButton
                           | None \<Rightarrow> first);
                        defaultTabValue = b_value defaultTabButton
                    in if truthy defaultTabValue
                       then activateTabValueForGroup st (the groupIdentifier) (the defaultTabValue)
                       else (st, Returned))))"

text \<open>
  What an event was dispatched on: something that is no HTML element, an element
  outside every tab group (with its \<^verbatim>\<open>data-language-tabs-value\<close>), or the button at
  an index of a group. An index that names no button of the page resolves to
  nothing.
\<close>

datatype event_target = NonElement | OrphanElement "string option" | TabButton nat nat

fun closest_language_tabs :: "page \<Rightarrow> event_target \<Rightarrow> nat option" where
  "closest_language_tabs st (TabButton i j) =
     (if i < length (groups st) \<and> j < length (buttons (groups st ! i)) then Some i else None)"
| "closest_language_tabs st _ = None"

fun target_value :: "page \<Rightarrow> event_target \<Rightarrow> string option" where
  "target_value st (TabButton i j) =
     (if i < length (groups st) \<and> j < length (buttons (groups st ! i))
      then b_value (buttons (groups st ! i) ! j) else None)"
| "target_value st (OrphanElement v) = v"
| "target_value st NonElement = None"

text \<open>Lines 153-174.\<close>

definition handleTabClick :: "page \<Rightarrow> event_target \<Rightarrow> page \<times> completion" where
  "handleTabClick st tabButton =
     (if tabButton = NonElement then (st, Returned)
      else
        (let groupIdentifier =
               (case closest_language_tabs st tabButton of
                  None \<Rightarrow> None
                | Some i \<Rightarrow> group_id (groups st ! i));
             selectedTabValue = target_value st tabButton
         in if \<not> truthy groupIdentifier \<or> \<not> truthy selectedTabValue then (st, Returned)
            else if isGlobalLanguageTabSyncEnabled st
            then (activateTabValueGlobally st (the selectedTabValue), Returned)
            else activateTabValueForGroup st (the groupIdentifier) (the selectedTabValue)))"

text \<open>
  JavaScript's \<^verbatim>\<open>%\<close> on integers: the remainder has the sign of the dividend (a zero
  divisor gives NaN and does not occur: the divisor is the length of a list in
  which an element was found).
\<close>

definition js_rem :: "int \<Rightarrow> int \<Rightarrow> int" where
  "js_rem a b = (if a < 0 then - ((- a) mod \<bar>b\<bar>) else a mod \<bar>b\<bar>)"

fun index_of_target :: "page \<Rightarrow> nat \<Rightarrow> event_target \<Rightarrow> int" where
  "index_of_target st i (TabButton i' j) =
     (if i' = i \<and> j < length (buttons (groups st ! i)) then int j else - 1)"
| "index_of_target st i _ = - 1"

text \<open>
  Lines 176-208. The result is the page and whether the default action of the
  event was prevented. \<^verbatim>\<open>focus()\<close> moves the focus to the button; \<^verbatim>\<open>click()\<close>
  dispatches a click on it, which runs \<^verbatim>\<open>handleTabClick\<close> (registered on every
  button of the group by lines 215-220); an exception of a listener is reported by
  the dispatch and does not reach the caller of \<^verbatim>\<open>click()\<close>.
\<close>

definition handleTabKeyboardNavigation :: "page \<Rightarrow> event_target \<Rightarrow> string \<Rightarrow> page \<times> bool" where
  "handleTabKeyboardNavigation st tabButton key =
     (if tabButton = NonElement then (st, False)
      else case closest_language_tabs st tabButton of
        None \<Rightarrow> (st, False)
      | Some i \<Rightarrow>
          (let tabButtons = getLanguageTabButtons (groups st ! i);
               currentTabButtonIndex = index_of_target st i tabButton
           in if currentTabButtonIndex = - 1 then (st, False)
              else
                (let nextTabButtonIndex =
                       (if key = ''ArrowRight''
                        then js_rem (currentTabButtonIndex + 1) (int (length tabButtons))
                        else if key = ''ArrowLeft''
                        then js_rem (currentTabButtonIndex - 1 + int (length tabButtons))
                               (int (length tabButtons))
                        else - 1)
                 in if nextTabButtonIndex = - 1 then (st, False)
                    else if 0 \<le> nextTabButtonIndex \<and> nextTabButtonIndex < int (length tabButtons)
                    then (fst (handleTabClick (st\<lparr> focused := Some (i, nat nextTabButtonIndex) \<rparr>)
                                 (TabButton i (nat nextTabButtonIndex))), True)
                    else (st, True))))"

text \<open>
  Lines 210-224. The loop stops at the first call that throws; the registration of
  the listeners (lines 215-220) changes nothing the page model holds.
\<close>

fun initialize_groups :: "nat list \<Rightarrow> page \<Rightarrow> page \<times> completion" where
  "initialize_groups [] st = (st, Returned)"
| "initialize_groups (i # rest) st =
     (case activateDefaultTab st i of
        (st', Returned) \<Rightarrow> initialize_groups rest st'
      | (st', c) \<Rightarrow> (st', c))"

definition initializeLanguageTabs :: "page \<Rightarrow> page \<times> completion" where
  "initializeLanguageTabs st =
     (case initialize_groups (getLanguageTabContainerElements st) st of
        (st', Returned) \<Rightarrow> (createLanguageTabsSyncToggle st', Returned)
      | (st', c) \<Rightarrow> (st', c))"

text \<open>
  The script as a whole (lines 1-2 and 226-230): on the parsed markup, with the
  module variables at their initial values, it runs \<^verbatim>\<open>initializeLanguageTabs\<close> once.
\<close>

record markup =
  m_groups :: "tab_group list"
  m_right_buttons :: "string list option"
  m_left_buttons :: "string list option"

definition parsed_page :: "markup \<Rightarrow> page" where
  "parsed_page m =
     \<lparr> groups = m_groups m,
       right_buttons = map_option (map MarkupChild) (m_right_buttons m),
       left_buttons = map_option (map MarkupChild) (m_left_buttons m),
       isGlobalLanguageTabSyncEnabled = False,
       languageTabsSyncToggleButtonElement = None,
       focused = None \<rparr>"

definition load_page :: "markup \<Rightarrow> page \<times> completion" where
  "load_page m = initializeLanguageTabs (parsed_page m)"

text \<open>Whether the header control is in the page.\<close>

definition toggle_in_page :: "page \<Rightarrow> bool" where
  "toggle_in_page st \<longleftrightarrow>
     (case right_buttons st of Some children \<Rightarrow> SyncToggleButton \<in> set children | None \<Rightarrow> False) \<or>
     (case left_buttons st of Some children \<Rightarrow> SyncToggleButton \<in> set children | None \<Rightarrow> False)"

section \<open>The invariant of a tab group\<close>



text \<open>The state of the page outside the tab groups.\<close>

definition chrome ::
  "page \<Rightarrow> header_child list option \<times> header_child list option \<times> bool \<times> toggle_button option
     \<times> (nat \<times> nat) option" where
  "chrome st =
     (right_buttons st, left_buttons st, isGlobalLanguageTabSyncEnabled st,
      languageTabsSyncToggleButtonElement st, focused st)"

text \<open>
  Every group identifier of the page is plain (a group without identifier has
  none to paste into a selector).
\<close>

definition plain_group :: "tab_group \<Rightarrow> bool" where
  "plain_group g \<longleftrightarrow> (case group_id g of None \<Rightarrow> True | Some gid \<Rightarrow> plain_identifier gid)"

definition identifiers_plain :: "page \<Rightarrow> bool" where
  "identifiers_plain st \<longleftrightarrow> list_all plain_group (groups st)"

text \<open>
  The selector of line 58 for a group identifier is one the model of
  \<^verbatim>\<open>querySelectorAll\<close> covers: it is invalid, or it is a list of compounds that
  select tab groups only. Every plain identifier has such a selector. A page is
  covered when the identifier of every group is.
\<close>

definition selector_modelled :: "string \<Rightarrow> bool" where
  "selector_modelled gid \<longleftrightarrow>
     (case parse_selector (group_selector gid) of
        Parsed cs \<Rightarrow> list_all (\<lambda>c. ClassLanguageTabs \<in> set c) cs
      | InvalidSelector \<Rightarrow> True
      | Unmodelled \<Rightarrow> False)"

definition modelled_group :: "tab_group \<Rightarrow> bool" where
  "modelled_group g \<longleftrightarrow> (case group_id g of None \<Rightarrow> True | Some gid \<Rightarrow> selector_modelled gid)"

definition identifiers_modelled :: "page \<Rightarrow> bool" where
  "identifiers_modelled st \<longleftrightarrow> list_all modelled_group (groups st)"

text \<open>The label of the header control, if the control was created.\<close>

definition toggle_label :: "page \<Rightarrow> string option" where
  "toggle_label st = map_option textContent (languageTabsSyncToggleButtonElement st)"

text \<open>
  The button at index \<open>j\<close> of the group at index \<open>i\<close> is the first active button
  in page order: it is active, no button before it in its group is, and no button
  of an earlier group is.
\<close>

definition first_active_at :: "page \<Rightarrow> nat \<Rightarrow> nat \<Rightarrow> bool" where
  "first_active_at st i j \<longleftrightarrow>
     i < length (groups st) \<and> j < length (buttons (groups st ! i)) \<and>
     b_active (buttons (groups st ! i) ! j) \<and>
     list_all (\<lambda>b. \<not> b_active b) (take j (buttons (groups st ! i))) \<and>
     list_all (\<lambda>g. list_all (\<lambda>b. \<not> b_active b) (buttons g)) (take i (groups st))"

text \<open>A group shows a value: its active buttons and panels are those that carry it.\<close>

definition shows_value :: "tab_group \<Rightarrow> string \<Rightarrow> bool" where
  "shows_value g v \<longleftrightarrow>
     list_all (\<lambda>b. b_active b \<longleftrightarrow> b_value b = Some v) (buttons g) \<and>
     list_all (\<lambda>p. p_active p \<longleftrightarrow> p_value p = Some v) (panels g)"

section \<open>Sample markup\<close>

text \<open>
  Buttons and panels as the preprocessor renders them: a value, the class
  \<^verbatim>\<open>is-active\<close> on the default tab, no ARIA state yet.
\<close>

definition markup_button :: "string \<Rightarrow> bool \<Rightarrow> tab_button" where
  "markup_button v a = \<lparr> b_value = Some v, b_active = a, aria_selected = None, tabindex = None \<rparr>"

definition markup_panel :: "string \<Rightarrow> bool \<Rightarrow> tab_panel" where
  "markup_panel v a = \<lparr> p_value = Some v, p_active = a \<rparr>"

definition lang_group :: "string option \<Rightarrow> string \<Rightarrow> tab_group" where
  "lang_group gid active =
     \<lparr> group_id = gid,
       buttons = [markup_button ''rust'' (active = ''rust''), markup_button ''python'' (active = ''python'')],
       panels = [markup_panel ''rust'' (active = ''rust''), markup_panel ''python'' (active = ''python'')] \<rparr>"

definition three_button_group :: "string \<Rightarrow> tab_group" where
  "three_button_group active =
     \<lparr> group_id = Some ''lang'',
       buttons = map (\<lambda>v. markup_button v (active = v)) [''pseudocode'', ''typescript'', ''rust''],
       panels = map (\<lambda>v. markup_panel v (active = v)) [''pseudocode'', ''typescript'', ''rust''] \<rparr>"

text \<open>Two groups on a page without a menu bar.\<close>

definition bare_markup :: markup where
  "bare_markup =
     \<lparr> m_groups = [lang_group None ''rust'', lang_group None ''python''],
       m_right_buttons = None, m_left_buttons = None \<rparr>"

text \<open>
  Two groups on a page with a menu bar; the identifier of the first group is a
  double quote.
\<close>

definition quote_markup :: markup where
  "quote_markup =
     \<lparr> m_groups = [lang_group (Some [dquote]) ''rust'', lang_group (Some ''lang'') ''python''],
       m_right_buttons = Some [''print''], m_left_buttons = None \<rparr>"

text \<open>
  A group without identifier, with a button whose value is the empty string.
\<close>

definition blank_group :: "bool \<Rightarrow> tab_group" where
  "blank_group blank_active =
     \<lparr> group_id = None,
       buttons = [markup_button [] blank_active, markup_button ''python'' (\<not> blank_active)],
       panels = [] \<rparr>"


text \<open>A button whose panel is missing: the data model tolerates such an orphan.\<close>

definition orphan_group :: tab_group where
  "orphan_group = \<lparr> group_id = Some ''lang'', buttons = [markup_button ''rust'' False], panels = [] \<rparr>"

text \<open>
  A page with a menu bar and the given groups, and the state of the page with the
  global sync mode as given.
\<close>

definition sample_markup :: "tab_group list \<Rightarrow> markup" where
  "sample_markup gs =
     \<lparr> m_groups = gs, m_right_buttons = Some [''print'', ''git''], m_left_buttons = Some [''sidebar''] \<rparr>"

definition sample_page :: "bool \<Rightarrow> tab_group list \<Rightarrow> page" where
  "sample_page sync gs = (parsed_page (sample_markup gs))\<lparr> isGlobalLanguageTabSyncEnabled := sync \<rparr>"

text \<open>
  A group identifier that closes the string and the bracket of the selector it is
  pasted into, and goes on with a second selector for the family \<open>b\<close>.
\<close>

definition injected_identifier :: string where
  "injected_identifier =
     ''a'' @ [dquote] @ ''],.language-tabs[data-language-tabs-group='' @ [dquote] @ ''b''"

definition three_families :: "tab_group list" where
  "three_families =
     [lang_group (Some ''a'') ''rust'', lang_group (Some ''b'') ''rust'',
      lang_group (Some injected_identifier) ''rust'']"

text \<open>
  Two pages after page load. On the first, a group without identifier and a group
  of the family \<open>lang\<close>, the header control was clicked once, which turned the
  global sync mode on. On the second, two groups without identifier, the first
  active button carries the empty string.
\<close>

definition mixed_markup :: markup where
  "mixed_markup = sample_markup [lang_group None ''rust'', lang_group (Some ''lang'') ''rust'']"

definition synced_mixed_page :: page where
  "synced_mixed_page = syncToggleClick (fst (load_page mixed_markup))"

definition blank_markup :: markup where
  "blank_markup = sample_markup [blank_group True, blank_group False]"

definition loaded_blank_page :: page where
  "loaded_blank_page = fst (load_page blank_markup)"

section \<open>Properties of activateTabValueInContainer\<close>

lemma has_value_iff: "hasSelectedTabValue g v \<longleftrightarrow> buttons_with g v \<noteq> []"
  by (simp add: hasSelectedTabValue_def getLanguageTabButtons_def buttons_with_def
      list_ex_iff filter_empty_conv)

lemma set_button_value [simp]: "b_value (set_button v b) = b_value b"
  by (simp add: set_button_def Let_def)

lemma set_button_active [simp]: "b_active (set_button v b) \<longleftrightarrow> b_value b = Some v"
  by (simp add: set_button_def Let_def)

lemma set_panel_value [simp]: "p_value (set_panel v p) = p_value p"
  by (simp add: set_panel_def)

lemma set_panel_active [simp]: "p_active (set_panel v p) \<longleftrightarrow> p_value p = Some v"
  by (simp add: set_panel_def)

lemma set_button_twice [simp]: "set_button v (set_button v b) = set_button v b"
  by (simp add: set_button_def Let_def)

lemma set_panel_twice [simp]: "set_panel v (set_panel v p) = set_panel v p"
  by (simp add: set_panel_def)

lemma activate_present:
  "hasSelectedTabValue g v \<Longrightarrow>
   activateTabValueInContainer g v =
     (True, g\<lparr> buttons := map (set_button v) (buttons g),
               panels := map (set_panel v) (panels g) \<rparr>)"
  by (simp add: activateTabValueInContainer_def getLanguageTabButtons_def
      getLanguageTabPanels_def)

lemma activate_absent:
  "\<not> hasSelectedTabValue g v \<Longrightarrow> activateTabValueInContainer g v = (False, g)"
  by (simp add: activateTabValueInContainer_def)

lemma active_buttons_after:
  "hasSelectedTabValue g v \<Longrightarrow>
   active_buttons (snd (activateTabValueInContainer g v)) = map (set_button v) (buttons_with g v)"
  by (simp add: activate_present active_buttons_def buttons_with_def filter_map comp_def)

lemma active_panels_after:
  "hasSelectedTabValue g v \<Longrightarrow>
   active_panels (snd (activateTabValueInContainer g v)) = map (set_panel v) (panels_with g v)"
  by (simp add: activate_present active_panels_def panels_with_def filter_map comp_def)

lemma has_value_after:
  "hasSelectedTabValue (snd (activateTabValueInContainer g v)) w = hasSelectedTabValue g w"
  by (cases "hasSelectedTabValue g v")
     (simp_all add: activate_present activate_absent hasSelectedTabValue_def
       getLanguageTabButtons_def list_ex_iff)

lemma group_id_after [simp]:
  "group_id (snd (activateTabValueInContainer g v)) = group_id g"
  by (simp add: activateTabValueInContainer_def)


lemmas sample_defs = markup_button_def markup_panel_def lang_group_def orphan_group_def
  sample_markup_def sample_page_def parsed_page_def injected_identifier_def three_families_def

lemmas activate_defs = activateTabValueInContainer_def hasSelectedTabValue_def
  getLanguageTabButtons_def getLanguageTabPanels_def set_button_def set_panel_def
  active_buttons_def active_panels_def buttons_with_def panels_with_def

section \<open>Claims about activateTabValueInContainer\<close>

text \<open>
  C1, as stated: for every group G and every value v present among G's buttons,
  activate(G, v) returns true and leaves exactly one button and exactly one panel
  active. The claim fails where the button carrying v has no panel: in
  \<open>orphan_group\<close> the value rust is present among the buttons, the call returns
  true, and no panel is active afterwards.
\<close>

theorem activate_orphan_button_counterexample:
  "hasSelectedTabValue orphan_group ''rust'' \<and>
   fst (activateTabValueInContainer orphan_group ''rust'') \<and>
   length (active_panels (snd (activateTabValueInContainer orphan_group ''rust''))) \<noteq> 1"
  by (simp add: activate_defs sample_defs)

text \<open>
  C1, amended: for every group G and every value v carried by exactly one of G's
  buttons and by exactly one of G's panels, activate(G, v) returns true and
  afterwards exactly one button and exactly one panel of G are active; a button is
  active if and only if it carries v, with aria-selected "true" and tabindex "0" on
  it and aria-selected "false" and tabindex "-1" on every other button; a panel is
  active if and only if it carries v.
\<close>

theorem activate_selects_value:
  assumes "length (buttons_with g v) = 1" and "length (panels_with g v) = 1"
  shows "fst (activateTabValueInContainer g v) = True \<and>
    length (active_buttons (snd (activateTabValueInContainer g v))) = 1 \<and>
    length (active_panels (snd (activateTabValueInContainer g v))) = 1 \<and>
    (\<forall>b \<in> set (buttons (snd (activateTabValueInContainer g v))).
       if b_value b = Some v
       then b_active b \<and> aria_selected b = Some ''true'' \<and> tabindex b = Some ''0''
       else \<not> b_active b \<and> aria_selected b = Some ''false'' \<and> tabindex b = Some ''-1'') \<and>
    (\<forall>p \<in> set (panels (snd (activateTabValueInContainer g v))).
       p_active p \<longleftrightarrow> p_value p = Some v)"
proof -
  from assms(1) have present: "hasSelectedTabValue g v"
    by (auto simp: has_value_iff)
  have "fst (activateTabValueInContainer g v) = True"
    using present by (simp add: activate_present)
  moreover have "length (active_buttons (snd (activateTabValueInContainer g v))) = 1"
    using present assms(1) by (simp add: active_buttons_after)
  moreover have "length (active_panels (snd (activateTabValueInContainer g v))) = 1"
    using present assms(2) by (simp add: active_panels_after)
  moreover have "\<forall>b \<in> set (buttons (snd (activateTabValueInContainer g v))).
       if b_value b = Some v
       then b_active b \<and> aria_selected b = Some ''true'' \<and> tabindex b = Some ''0''
       else \<not> b_active b \<and> aria_selected b = Some ''false'' \<and> tabindex b = Some ''-1''"
    using present by (auto simp: activate_present set_button_def Let_def)
  moreover have "\<forall>p \<in> set (panels (snd (activateTabValueInContainer g v))).
       p_active p \<longleftrightarrow> p_value p = Some v"
    using present by (auto simp: activate_present)
  ultimately show ?thesis by blast
qed

theorem activate_selects_value_witness:
  "fst (activateTabValueInContainer (lang_group None ''rust'') ''python'') = True \<and>
   length (active_buttons (snd (activateTabValueInContainer (lang_group None ''rust'') ''python''))) = 1 \<and>
   length (active_panels (snd (activateTabValueInContainer (lang_group None ''rust'') ''python''))) = 1 \<and>
   map aria_selected (buttons (snd (activateTabValueInContainer (lang_group None ''rust'') ''python'')))
     = [Some ''false'', Some ''true'']"
proof -
  have b: "length (buttons_with (lang_group None ''rust'') ''python'') = 1"
    by (simp add: buttons_with_def sample_defs)
  have p: "length (panels_with (lang_group None ''rust'') ''python'') = 1"
    by (simp add: panels_with_def sample_defs)
  show ?thesis
    using activate_selects_value [OF b p] by (simp add: activate_defs sample_defs)
qed

text \<open>
  C3: for every group G and every value v that no button of G carries,
  activate(G, v) returns false and G is exactly as before: every button's and
  panel's active flag, aria-selected and tabindex are unchanged.
\<close>

theorem activate_absent_value_unchanged:
  "\<not> hasSelectedTabValue g v \<Longrightarrow> activateTabValueInContainer g v = (False, g)"
  by (simp add: activateTabValueInContainer_def)

theorem activate_absent_value_unchanged_witness:
  "\<not> hasSelectedTabValue (lang_group None ''rust'') ''go'' \<and>
   activateTabValueInContainer (lang_group None ''rust'') ''go'' = (False, lang_group None ''rust'')"
proof -
  have h: "\<not> hasSelectedTabValue (lang_group None ''rust'') ''go''"
    by (simp add: hasSelectedTabValue_def getLanguageTabButtons_def sample_defs)
  show ?thesis
    using h activate_absent_value_unchanged [OF h] by simp
qed

text \<open>
  C4: activate is idempotent. For every group G and value v, a second call
  activate(G, v) on the state the first call left returns the same boolean and
  leaves the same state; when v is present among G's buttons both calls return true.
\<close>

theorem activate_idempotent:
  "activateTabValueInContainer (snd (activateTabValueInContainer g v)) v
     = activateTabValueInContainer g v \<and>
   (hasSelectedTabValue g v \<longrightarrow>
      fst (activateTabValueInContainer g v) \<and>
      fst (activateTabValueInContainer (snd (activateTabValueInContainer g v)) v))"
proof (cases "hasSelectedTabValue g v")
  case True
  then have again: "hasSelectedTabValue (snd (activateTabValueInContainer g v)) v"
    by (simp add: has_value_after)
  show ?thesis
    using True by (simp add: activate_present [OF again]) (simp add: activate_present)
next
  case False
  then show ?thesis by (simp add: activate_absent)
qed

theorem activate_idempotent_witness:
  "hasSelectedTabValue (lang_group None ''rust'') ''python'' \<and>
   fst (activateTabValueInContainer (lang_group None ''rust'') ''python'') \<and>
   activateTabValueInContainer
     (snd (activateTabValueInContainer (lang_group None ''rust'') ''python'')) ''python''
     = activateTabValueInContainer (lang_group None ''rust'') ''python''"
proof -
  have h: "hasSelectedTabValue (lang_group None ''rust'') ''python''"
    by (simp add: hasSelectedTabValue_def getLanguageTabButtons_def sample_defs)
  show ?thesis
    using h activate_idempotent [of "lang_group None ''rust''" "''python''"] by simp
qed


section \<open>Loops over groups\<close>

lemma activate_twice_snd:
  "snd (activateTabValueInContainer (snd (activateTabValueInContainer g v)) v)
     = snd (activateTabValueInContainer g v)"
proof (cases "hasSelectedTabValue g v")
  case True
  then have "hasSelectedTabValue (snd (activateTabValueInContainer g v)) v"
    by (simp add: has_value_after)
  then show ?thesis
    using True by (simp add: activate_present)
next
  case False
  then show ?thesis by (simp add: activate_absent)
qed

lemma length_activate_at [simp]: "length (activate_at v i gs) = length gs"
  by (simp add: activate_at_def)

lemma length_fold_activate_at [simp]: "length (fold (activate_at v) idxs gs) = length gs"
  by (induction idxs arbitrary: gs) simp_all

lemma nth_activate_at:
  "i < length gs \<Longrightarrow>
   activate_at v k gs ! i = (if i = k then snd (activateTabValueInContainer (gs ! i) v) else gs ! i)"
  by (simp add: activate_at_def)

lemma nth_fold_activate_at:
  "i < length gs \<Longrightarrow>
   fold (activate_at v) idxs gs ! i =
     (if i \<in> set idxs then snd (activateTabValueInContainer (gs ! i) v) else gs ! i)"
proof (induction idxs arbitrary: gs)
  case Nil
  then show ?case by simp
next
  case (Cons k idxs)
  have len: "i < length (activate_at v k gs)"
    using Cons.prems by simp
  show ?case
    using Cons.IH [OF len] Cons.prems
    by (simp add: nth_activate_at activate_twice_snd)
qed

section \<open>The selector of a plain identifier\<close>

lemmas char_class_defs = is_newline_def is_whitespace_def is_ident_start_def is_ident_char_def

lemma tokenize_plain_string:
  "plain_identifier s \<Longrightarrow>
   tokenize (InString acc) (s @ dquote # rest) = emit (TString (rev acc @ s)) (tokenize Top rest)"
  by (induction s arbitrary: acc) (simp_all add: plain_identifier_def)

lemma tokenize_group_selector:
  assumes "plain_identifier gid"
  shows "tokenize Top (group_selector gid) =
    Parsed [TDot, TIdent ''language-tabs'', TLBracket, TIdent ''data-language-tabs-group'',
            TEquals, TString gid, TRBracket]"
proof -
  have "tokenize Top (group_selector gid) =
      emit TDot (emit (TIdent ''language-tabs'') (emit TLBracket
        (emit (TIdent ''data-language-tabs-group'') (emit TEquals
          (tokenize (InString []) (gid @ dquote # '']''))))))"
    by (simp add: group_selector_def char_class_defs)
  also have "tokenize (InString []) (gid @ dquote # '']'') = Parsed [TString gid, TRBracket]"
    using tokenize_plain_string [OF assms, of "[]" "'']''"] by (simp add: char_class_defs)
  finally show ?thesis by simp
qed

lemma parse_group_selector:
  "plain_identifier gid \<Longrightarrow>
   parse_selector (group_selector gid) = Parsed [[ClassLanguageTabs, GroupAttribute gid]]"
  by (simp add: parse_selector_def tokenize_group_selector)

lemma querySelectorAll_group_selector:
  "plain_identifier gid \<Longrightarrow>
   querySelectorAll gs (group_selector gid) =
     Parsed (filter (\<lambda>i. group_id (gs ! i) = Some gid) [0..<length gs])"
  by (simp add: querySelectorAll_def parse_group_selector matches_compound_def)

lemma activateTabValueForGroup_plain:
  "plain_identifier gid \<Longrightarrow>
   activateTabValueForGroup st gid v =
     (st\<lparr> groups := fold (activate_at v)
                       (filter (\<lambda>i. group_id (groups st ! i) = Some gid) [0..<length (groups st)])
                       (groups st) \<rparr>, Returned)"
  by (simp add: activateTabValueForGroup_def querySelectorAll_group_selector)


section \<open>Claims about the page-wide and the family-wide activation\<close>

lemma groups_activateTabValueGlobally:
  "i < length (groups st) \<Longrightarrow>
   groups (activateTabValueGlobally st v) ! i = snd (activateTabValueInContainer (groups st ! i) v)"
  by (simp add: activateTabValueGlobally_def getLanguageTabContainerElements_def
      nth_fold_activate_at)

lemma length_groups_activateTabValueGlobally [simp]:
  "length (groups (activateTabValueGlobally st v)) = length (groups st)"
  by (simp add: activateTabValueGlobally_def)

text \<open>
  C6: for every value v, activateEverywhere(v) activates v in every group of the
  page that has v among its buttons, whatever the group identifier (in such a
  group, afterwards, a button is active if and only if it carries v, and so is a
  panel), and leaves every group without v among its buttons unchanged.
\<close>

theorem activate_globally_every_group:
  "length (groups (activateTabValueGlobally st v)) = length (groups st) \<and>
   (\<forall>i < length (groups st).
      if hasSelectedTabValue (groups st ! i) v
      then groups (activateTabValueGlobally st v) ! i
             = snd (activateTabValueInContainer (groups st ! i) v) \<and>
           (\<forall>b \<in> set (buttons (groups (activateTabValueGlobally st v) ! i)).
              b_active b \<longleftrightarrow> b_value b = Some v) \<and>
           (\<forall>p \<in> set (panels (groups (activateTabValueGlobally st v) ! i)).
              p_active p \<longleftrightarrow> p_value p = Some v)
      else groups (activateTabValueGlobally st v) ! i = groups st ! i)"
proof -
  have "if hasSelectedTabValue (groups st ! i) v
      then groups (activateTabValueGlobally st v) ! i
             = snd (activateTabValueInContainer (groups st ! i) v) \<and>
           (\<forall>b \<in> set (buttons (groups (activateTabValueGlobally st v) ! i)).
              b_active b \<longleftrightarrow> b_value b = Some v) \<and>
           (\<forall>p \<in> set (panels (groups (activateTabValueGlobally st v) ! i)).
              p_active p \<longleftrightarrow> p_value p = Some v)
      else groups (activateTabValueGlobally st v) ! i = groups st ! i"
    if "i < length (groups st)" for i
  proof (cases "hasSelectedTabValue (groups st ! i) v")
    case True
    then show ?thesis
      using that by (auto simp: groups_activateTabValueGlobally activate_present)
  next
    case False
    then show ?thesis
      using that by (simp add: groups_activateTabValueGlobally activate_absent)
  qed
  then show ?thesis by simp
qed


theorem activate_globally_every_group_witness:
  "hasSelectedTabValue (lang_group None ''rust'') ''python'' \<and>
   \<not> hasSelectedTabValue orphan_group ''python'' \<and>
   map b_active (buttons (groups (activateTabValueGlobally
       (sample_page True [lang_group None ''rust'', orphan_group]) ''python'') ! 0)) = [False, True] \<and>
   groups (activateTabValueGlobally
       (sample_page True [lang_group None ''rust'', orphan_group]) ''python'') ! 1 = orphan_group"
proof -
  let ?st = "sample_page True [lang_group None ''rust'', orphan_group]"
  note each = activate_globally_every_group [of ?st "''python''", THEN conjunct2, rule_format]
  have g0: "groups ?st ! 0 = lang_group None ''rust''" and g1: "groups ?st ! 1 = orphan_group"
    and len: "0 < length (groups ?st)" "1 < length (groups ?st)"
    by (simp_all add: sample_page_def parsed_page_def sample_markup_def)
  have h0: "hasSelectedTabValue (lang_group None ''rust'') ''python''"
    by (simp add: hasSelectedTabValue_def getLanguageTabButtons_def sample_defs)
  have h1: "\<not> hasSelectedTabValue orphan_group ''python''"
    by (simp add: hasSelectedTabValue_def getLanguageTabButtons_def sample_defs)
  have r0: "groups (activateTabValueGlobally ?st ''python'') ! 0
             = snd (activateTabValueInContainer (lang_group None ''rust'') ''python'')"
    using each [OF len(1)] h0 by (simp only: g0 if_True)
  have r1: "groups (activateTabValueGlobally ?st ''python'') ! 1 = orphan_group"
    using each [OF len(2)] h1 by (simp only: g1 if_False)
  have "map b_active (buttons (snd (activateTabValueInContainer (lang_group None ''rust'') ''python'')))
      = [False, True]"
    by (simp add: activate_defs sample_defs)
  with r0 r1 h0 h1 show ?thesis by simp
qed

text \<open>
  The frame of the family-wide activation, for a plain identifier: a group whose
  identifier differs from it, or that has none, is unchanged, and so is the rest of
  the page.
\<close>

lemma activate_for_group_frame_plain:
  assumes "plain_identifier gid" and "i < length (groups st)"
    and "group_id (groups st ! i) \<noteq> Some gid"
  shows "groups (fst (activateTabValueForGroup st gid v)) ! i = groups st ! i"
  using assms by (simp add: activateTabValueForGroup_plain nth_fold_activate_at)

lemma activate_for_group_family_plain:
  assumes "plain_identifier gid" and "i < length (groups st)"
    and "group_id (groups st ! i) = Some gid"
  shows "groups (fst (activateTabValueForGroup st gid v)) ! i
    = snd (activateTabValueInContainer (groups st ! i) v)"
  using assms by (simp add: activateTabValueForGroup_plain nth_fold_activate_at)

lemma activate_for_group_returns_plain:
  "plain_identifier gid \<Longrightarrow> snd (activateTabValueForGroup st gid v) = Returned"
  by (simp add: activateTabValueForGroup_plain)

text \<open>
  C5 says that activateForGroupFamily(id, v) mutates only groups whose identifier
  equals id, for every identifier. The identifier is pasted into the selector
  unescaped (line 58). On the page \<open>three_families\<close>, with the identifier of the
  third group, the selector reads as a list of two selectors, for the families
  \<open>a\<close> and \<open>b\<close>: the call returns, the first two groups, whose identifiers differ
  from the one given, switch to python, and the third group, whose identifier it
  is, stays as it was.
\<close>

theorem activate_for_group_injected_selector:
  "group_id (three_families ! 0) \<noteq> Some injected_identifier \<and>
   group_id (three_families ! 1) \<noteq> Some injected_identifier \<and>
   group_id (three_families ! 2) = Some injected_identifier \<and>
   snd (activateTabValueForGroup (sample_page False three_families) injected_identifier ''python'')
     = Returned \<and>
   groups (fst (activateTabValueForGroup (sample_page False three_families)
       injected_identifier ''python''))
     = [snd (activateTabValueInContainer (lang_group (Some ''a'') ''rust'') ''python''),
        snd (activateTabValueInContainer (lang_group (Some ''b'') ''rust'') ''python''),
        lang_group (Some injected_identifier) ''rust''] \<and>
   snd (activateTabValueInContainer (lang_group (Some ''a'') ''rust'') ''python'')
     \<noteq> lang_group (Some ''a'') ''rust''"
proof -
  have sel: "parse_selector (group_selector injected_identifier)
      = Parsed [[ClassLanguageTabs, GroupAttribute ''a''], [ClassLanguageTabs, GroupAttribute ''b'']]"
    by (simp add: parse_selector_def group_selector_def injected_identifier_def char_class_defs)
  have ids: "injected_identifier \<noteq> ''a''" "injected_identifier \<noteq> ''b''"
    by (simp_all add: injected_identifier_def)
  have q: "querySelectorAll three_families (group_selector injected_identifier) = Parsed [0, 1]"
    using ids
    by (simp add: querySelectorAll_def sel matches_compound_def three_families_def
        lang_group_def upt_rec [of 0] upt_rec [of 1] upt_rec [of 2])
  have gs: "groups (sample_page False three_families) = three_families"
    by (simp add: sample_page_def parsed_page_def sample_markup_def)
  have call: "activateTabValueForGroup (sample_page False three_families) injected_identifier ''python''
      = ((sample_page False three_families)
           \<lparr> groups :=
               [snd (activateTabValueInContainer (lang_group (Some ''a'') ''rust'') ''python''),
                snd (activateTabValueInContainer (lang_group (Some ''b'') ''rust'') ''python''),
                lang_group (Some injected_identifier) ''rust''] \<rparr>, Returned)"
    by (simp add: activateTabValueForGroup_def gs q) (simp add: activate_at_def three_families_def)
  have changed: "snd (activateTabValueInContainer (lang_group (Some ''a'') ''rust'') ''python'')
     \<noteq> lang_group (Some ''a'') ''rust''"
    by (simp add: activate_defs markup_button_def markup_panel_def lang_group_def)
  have result: "groups (fst (activateTabValueForGroup (sample_page False three_families)
       injected_identifier ''python''))
     = [snd (activateTabValueInContainer (lang_group (Some ''a'') ''rust'') ''python''),
        snd (activateTabValueInContainer (lang_group (Some ''b'') ''rust'') ''python''),
        lang_group (Some injected_identifier) ''rust'']"
    by (simp add: call)
  have returned: "snd (activateTabValueForGroup (sample_page False three_families)
       injected_identifier ''python'') = Returned"
    by (simp add: call)
  have "group_id (three_families ! 0) \<noteq> Some injected_identifier"
    and "group_id (three_families ! 1) \<noteq> Some injected_identifier"
    and "group_id (three_families ! 2) = Some injected_identifier"
    using ids by (simp_all add: three_families_def lang_group_def)
  with result returned changed show ?thesis by blast
qed


section \<open>What every operation does to a group\<close>

text \<open>
  Every operation changes the groups by calls of \<^verbatim>\<open>activateTabValueInContainer\<close>
  only: a property of a group that each such call keeps is kept, for the group at
  every index, by every operation. The number of groups never changes.
\<close>

lemma fold_activate_at_keeps:
  assumes "\<And>g w. P g \<Longrightarrow> P (snd (activateTabValueInContainer g w))"
    and "i < length gs" and "P (gs ! i)"
  shows "P (fold (activate_at v) idxs gs ! i)"
  using assms by (simp add: nth_fold_activate_at)


lemma chrome_globally [simp]: "chrome (activateTabValueGlobally st v) = chrome st"
  by (simp add: chrome_def activateTabValueGlobally_def)

lemma for_group_as_fold:
  "\<exists>idxs. fst (activateTabValueForGroup st gid v)
     = st\<lparr> groups := fold (activate_at v) idxs (groups st) \<rparr>"
proof (cases "querySelectorAll (groups st) (group_selector gid)")
  case (Parsed matched)
  then show ?thesis by (auto simp: activateTabValueForGroup_def)
next
  case InvalidSelector
  then have "fst (activateTabValueForGroup st gid v) = st\<lparr> groups := fold (activate_at v) [] (groups st) \<rparr>"
    by (simp add: activateTabValueForGroup_def)
  then show ?thesis by blast
next
  case Unmodelled
  then have "fst (activateTabValueForGroup st gid v) = st\<lparr> groups := fold (activate_at v) [] (groups st) \<rparr>"
    by (simp add: activateTabValueForGroup_def)
  then show ?thesis by blast
qed

lemma length_groups_for_group [simp]:
  "length (groups (fst (activateTabValueForGroup st gid v))) = length (groups st)"
  using for_group_as_fold [of st gid v] by auto

lemma chrome_for_group [simp]: "chrome (fst (activateTabValueForGroup st gid v)) = chrome st"
  using for_group_as_fold [of st gid v] by (auto simp: chrome_def)

lemma for_group_keeps:
  assumes "\<And>g w. P g \<Longrightarrow> P (snd (activateTabValueInContainer g w))"
    and "i < length (groups st)" and "P (groups st ! i)"
  shows "P (groups (fst (activateTabValueForGroup st gid v)) ! i)"
proof -
  obtain idxs where "fst (activateTabValueForGroup st gid v)
     = st\<lparr> groups := fold (activate_at v) idxs (groups st) \<rparr>"
    using for_group_as_fold by blast
  then show ?thesis
    using fold_activate_at_keeps [of P i "groups st" v idxs] assms by simp
qed

lemma default_tab_cases:
  "fst (activateDefaultTab st k) = st \<or>
   (\<exists>gid v. fst (activateDefaultTab st k) = fst (activateTabValueForGroup st gid v))"
  by (auto simp: activateDefaultTab_def Let_def split: list.splits)

lemma length_groups_default_tab [simp]:
  "length (groups (fst (activateDefaultTab st k))) = length (groups st)"
  using default_tab_cases [of st k] by auto

lemma chrome_default_tab [simp]: "chrome (fst (activateDefaultTab st k)) = chrome st"
  using default_tab_cases [of st k] by auto

lemma default_tab_keeps:
  assumes "\<And>g w. P g \<Longrightarrow> P (snd (activateTabValueInContainer g w))"
    and "i < length (groups st)" and "P (groups st ! i)"
  shows "P (groups (fst (activateDefaultTab st k)) ! i)"
  using default_tab_cases [of st k] for_group_keeps [of P i st] assms by auto

lemma initialize_groups_step:
  "initialize_groups (k # rest) st =
     (if snd (activateDefaultTab st k) = Returned
      then initialize_groups rest (fst (activateDefaultTab st k))
      else activateDefaultTab st k)"
  by (cases "activateDefaultTab st k") (auto split: completion.splits)

lemma length_groups_initialize_groups [simp]:
  "length (groups (fst (initialize_groups ks st))) = length (groups st)"
  by (induction ks arbitrary: st) (simp_all add: initialize_groups_step del: initialize_groups.simps(2))

lemma chrome_initialize_groups [simp]: "chrome (fst (initialize_groups ks st)) = chrome st"
  by (induction ks arbitrary: st) (simp_all add: initialize_groups_step del: initialize_groups.simps(2))


lemma groups_update_toggle_state [simp]:
  "groups (updateLanguageTabsSyncToggleButtonState st) = groups st"
  by (simp add: updateLanguageTabsSyncToggleButtonState_def split: option.splits)

lemma groups_create_toggle [simp]: "groups (createLanguageTabsSyncToggle st) = groups st"
  by (simp add: createLanguageTabsSyncToggle_def Let_def split: option.splits)

lemma initialize_cases:
  "fst (initializeLanguageTabs st)
     = (if snd (initialize_groups (getLanguageTabContainerElements st) st) = Returned
        then createLanguageTabsSyncToggle (fst (initialize_groups (getLanguageTabContainerElements st) st))
        else fst (initialize_groups (getLanguageTabContainerElements st) st))"
  by (cases "initialize_groups (getLanguageTabContainerElements st) st")
     (auto simp: initializeLanguageTabs_def split: completion.splits)

lemma length_groups_initialize [simp]:
  "length (groups (fst (initializeLanguageTabs st))) = length (groups st)"
  by (simp add: initialize_cases)


lemma click_cases:
  "fst (handleTabClick st t) = st \<or>
   (\<exists>v. fst (handleTabClick st t) = activateTabValueGlobally st v) \<or>
   (\<exists>gid v. fst (handleTabClick st t) = fst (activateTabValueForGroup st gid v))"
  by (auto simp: handleTabClick_def Let_def)

lemma length_groups_click [simp]:
  "length (groups (fst (handleTabClick st t))) = length (groups st)"
  using click_cases [of st t] by auto

lemma chrome_click [simp]: "chrome (fst (handleTabClick st t)) = chrome st"
  using click_cases [of st t] by auto


lemma keyboard_cases:
  "fst (handleTabKeyboardNavigation st t key) = st \<or>
   (\<exists>f t'. fst (handleTabKeyboardNavigation st t key) = fst (handleTabClick (st\<lparr> focused := f \<rparr>) t'))"
  by (auto simp: handleTabKeyboardNavigation_def Let_def split: option.splits)

lemma length_groups_keyboard [simp]:
  "length (groups (fst (handleTabKeyboardNavigation st t key))) = length (groups st)"
  using keyboard_cases [of st t key] by auto


lemma sync_toggle_cases:
  "groups (syncToggleClick st) = groups st \<or>
   (\<exists>st' v. groups st' = groups st \<and> syncToggleClick st = activateTabValueGlobally st' v)"
proof -
  let ?st2 = "updateLanguageTabsSyncToggleButtonState
      (st\<lparr> isGlobalLanguageTabSyncEnabled := \<not> isGlobalLanguageTabSyncEnabled st \<rparr>)"
  have "groups ?st2 = groups st" by simp
  moreover have "syncToggleClick st = ?st2 \<or>
      syncToggleClick st = activateTabValueGlobally ?st2 (the (getFirstActiveTabValue ?st2))"
    by (simp add: syncToggleClick_def Let_def)
  ultimately show ?thesis by metis
qed

lemma length_groups_sync_toggle [simp]:
  "length (groups (syncToggleClick st)) = length (groups st)"
  using sync_toggle_cases [of st] by auto



section \<open>The invariant of a group\<close>






lemma plain_lang [simp]: "plain_identifier ''lang''"
  by (simp add: plain_identifier_def is_newline_def)


section \<open>Keyboard navigation\<close>

lemma js_rem_nonneg: "0 \<le> a \<Longrightarrow> 0 < b \<Longrightarrow> js_rem a b = a mod b"
  by (simp add: js_rem_def)

lemma focused_click [simp]: "focused (fst (handleTabClick st t)) = focused st"
  using chrome_click [of st t] by (simp add: chrome_def)

lemma keyboard_on_button:
  assumes "i < length (groups st)" and "j < length (buttons (groups st ! i))"
    and "0 \<le> nxt" and "nxt < int (length (buttons (groups st ! i)))"
    and "(if key = ''ArrowRight''
          then js_rem (int j + 1) (int (length (buttons (groups st ! i))))
          else if key = ''ArrowLeft''
          then js_rem (int j - 1 + int (length (buttons (groups st ! i))))
                 (int (length (buttons (groups st ! i))))
          else - 1) = nxt"
  shows "handleTabKeyboardNavigation st (TabButton i j) key =
    (fst (handleTabClick (st\<lparr> focused := Some (i, nat nxt) \<rparr>) (TabButton i (nat nxt))), True)"
  using assms
  by (simp add: handleTabKeyboardNavigation_def Let_def getLanguageTabButtons_def)

lemma keyboard_other_key:
  assumes "key \<noteq> ''ArrowRight''" and "key \<noteq> ''ArrowLeft''"
  shows "handleTabKeyboardNavigation st t key = (st, False)"
  using assms
  by (simp add: handleTabKeyboardNavigation_def Let_def split: option.splits)

text \<open>
  C8: in a group with count buttons, on the button at index j, the key ArrowRight
  targets the index (j + 1) mod count and the key ArrowLeft the index
  (j - 1 + count) mod count. The default action of the event is prevented, the
  target button has the focus afterwards, and the page is the one a click on the
  target button gives. Every other key, on whatever target, leaves the page as it
  is and does not prevent the default action.
\<close>

theorem keyboard_navigation_wraps:
  assumes "i < length (groups st)" and "j < length (buttons (groups st ! i))"
  shows "(let count = length (buttons (groups st ! i));
              right = (j + 1) mod count;
              left = nat ((int j - 1 + int count) mod int count)
          in right < count \<and> left < count \<and>
             handleTabKeyboardNavigation st (TabButton i j) ''ArrowRight''
               = (fst (handleTabClick (st\<lparr> focused := Some (i, right) \<rparr>) (TabButton i right)), True) \<and>
             focused (fst (handleTabKeyboardNavigation st (TabButton i j) ''ArrowRight''))
               = Some (i, right) \<and>
             handleTabKeyboardNavigation st (TabButton i j) ''ArrowLeft''
               = (fst (handleTabClick (st\<lparr> focused := Some (i, left) \<rparr>) (TabButton i left)), True) \<and>
             focused (fst (handleTabKeyboardNavigation st (TabButton i j) ''ArrowLeft''))
               = Some (i, left)) \<and>
         (\<forall>t key. key \<noteq> ''ArrowRight'' \<and> key \<noteq> ''ArrowLeft'' \<longrightarrow>
            handleTabKeyboardNavigation st t key = (st, False))"
proof -
  define count where "count = length (buttons (groups st ! i))"
  define right where "right = (j + 1) mod count"
  define left where "left = nat ((int j - 1 + int count) mod int count)"
  have pos: "0 < count"
    using assms(2) unfolding count_def by (cases "buttons (groups st ! i)") simp_all
  have r_lt: "right < count"
    using pos by (simp add: right_def)
  have l_int: "0 \<le> (int j - 1 + int count) mod int count"
    "(int j - 1 + int count) mod int count < int count"
    using pos by simp_all
  then have l_lt: "left < count"
    by (simp add: left_def)
  have r_rem: "js_rem (int j + 1) (int count) = int right"
    using pos by (simp add: js_rem_nonneg right_def zmod_int add.commute)
  have l_rem: "js_rem (int j - 1 + int count) (int count) = int left"
    using pos l_int by (simp add: js_rem_nonneg left_def)
  have r_key: "handleTabKeyboardNavigation st (TabButton i j) ''ArrowRight''
      = (fst (handleTabClick (st\<lparr> focused := Some (i, right) \<rparr>) (TabButton i right)), True)"
    using keyboard_on_button [of i st j "int right" "''ArrowRight''"] assms r_lt r_rem
    by (simp add: count_def)
  have l_key: "handleTabKeyboardNavigation st (TabButton i j) ''ArrowLeft''
      = (fst (handleTabClick (st\<lparr> focused := Some (i, left) \<rparr>) (TabButton i left)), True)"
    using keyboard_on_button [of i st j "int left" "''ArrowLeft''"] assms l_lt l_rem
    by (simp add: count_def)
  have r_focus: "focused (fst (handleTabKeyboardNavigation st (TabButton i j) ''ArrowRight''))
      = Some (i, right)"
    by (simp add: r_key)
  have l_focus: "focused (fst (handleTabKeyboardNavigation st (TabButton i j) ''ArrowLeft''))
      = Some (i, left)"
    by (simp add: l_key)
  have other: "\<forall>t key. key \<noteq> ''ArrowRight'' \<and> key \<noteq> ''ArrowLeft'' \<longrightarrow>
            handleTabKeyboardNavigation st t key = (st, False)"
    by (simp add: keyboard_other_key)
  show ?thesis
    using r_lt l_lt r_key l_key r_focus l_focus other
    unfolding Let_def count_def [symmetric] right_def [symmetric] left_def [symmetric]
    by blast
qed


lemma click_in_single_group:
  assumes "groups st = [g]" and "group_id g = Some gid" and "plain_identifier gid" and "gid \<noteq> []"
    and "j < length (buttons g)" and "b_value (buttons g ! j) = Some v" and "v \<noteq> []"
    and "\<not> isGlobalLanguageTabSyncEnabled st"
  shows "handleTabClick st (TabButton 0 j)
    = (st\<lparr> groups := [snd (activateTabValueInContainer g v)] \<rparr>, Returned)"
proof -
  have "handleTabClick st (TabButton 0 j) = activateTabValueForGroup st gid v"
    using assms by (simp add: handleTabClick_def Let_def truthy_def)
  also have "\<dots> = (st\<lparr> groups := fold (activate_at v) [0] [g] \<rparr>, Returned)"
    using assms by (simp add: activateTabValueForGroup_plain)
  finally show ?thesis by (simp add: activate_at_def)
qed

theorem keyboard_navigation_wraps_witness:
  "focused (fst (handleTabKeyboardNavigation
       (sample_page False [three_button_group ''rust'']) (TabButton 0 2) ''ArrowRight''))
     = Some (0, 0) \<and>
   map b_active (buttons (groups (fst (handleTabKeyboardNavigation
       (sample_page False [three_button_group ''rust'']) (TabButton 0 2) ''ArrowRight'')) ! 0))
     = [True, False, False] \<and>
   focused (fst (handleTabKeyboardNavigation
       (sample_page False [three_button_group ''pseudocode'']) (TabButton 0 0) ''ArrowLeft''))
     = Some (0, 2) \<and>
   map b_active (buttons (groups (fst (handleTabKeyboardNavigation
       (sample_page False [three_button_group ''pseudocode'']) (TabButton 0 0) ''ArrowLeft'')) ! 0))
     = [False, False, True] \<and>
   handleTabKeyboardNavigation (sample_page False [three_button_group ''rust'']) (TabButton 0 2) ''Enter''
     = (sample_page False [three_button_group ''rust''], False)"
proof -
  let ?r = "sample_page False [three_button_group ''rust'']"
  let ?p = "sample_page False [three_button_group ''pseudocode'']"
  have gr: "groups ?r = [three_button_group ''rust'']" and gp: "groups ?p = [three_button_group ''pseudocode'']"
    and sync: "\<not> isGlobalLanguageTabSyncEnabled ?r" "\<not> isGlobalLanguageTabSyncEnabled ?p"
    by (simp_all add: sample_page_def parsed_page_def sample_markup_def)
  have len: "length (buttons (three_button_group a)) = 3" and gid: "group_id (three_button_group a) = Some ''lang''"
    and v0: "b_value (buttons (three_button_group a) ! 0) = Some ''pseudocode''"
    and v2: "b_value (buttons (three_button_group a) ! 2) = Some ''rust''" for a
    by (simp_all add: three_button_group_def markup_button_def)
  have right: "handleTabKeyboardNavigation ?r (TabButton 0 2) ''ArrowRight''
      = (fst (handleTabClick (?r\<lparr> focused := Some (0, 0) \<rparr>) (TabButton 0 0)), True)"
    and other: "handleTabKeyboardNavigation ?r (TabButton 0 2) ''Enter'' = (?r, False)"
    using keyboard_navigation_wraps [of 0 ?r 2] by (simp_all add: gr len Let_def)
  have left: "handleTabKeyboardNavigation ?p (TabButton 0 0) ''ArrowLeft''
      = (fst (handleTabClick (?p\<lparr> focused := Some (0, 2) \<rparr>) (TabButton 0 2)), True)"
    using keyboard_navigation_wraps [of 0 ?p 0] by (simp add: gp len Let_def)
  have click_r: "handleTabClick (?r\<lparr> focused := Some (0, 0) \<rparr>) (TabButton 0 0)
      = (?r\<lparr> focused := Some (0, 0),
             groups := [snd (activateTabValueInContainer (three_button_group ''rust'') ''pseudocode'')] \<rparr>,
         Returned)"
    using click_in_single_group [of "?r\<lparr> focused := Some (0, 0) \<rparr>" "three_button_group ''rust''"
        "''lang''" 0 "''pseudocode''"]
    by (simp add: gr sync len gid v0)
  have click_p: "handleTabClick (?p\<lparr> focused := Some (0, 2) \<rparr>) (TabButton 0 2)
      = (?p\<lparr> focused := Some (0, 2),
             groups := [snd (activateTabValueInContainer (three_button_group ''pseudocode'') ''rust'')] \<rparr>,
         Returned)"
    using click_in_single_group [of "?p\<lparr> focused := Some (0, 2) \<rparr>" "three_button_group ''pseudocode''"
        "''lang''" 2 "''rust''"]
    by (simp add: gp sync len gid v2)
  have act_r: "map b_active (buttons (snd (activateTabValueInContainer
        (three_button_group ''rust'') ''pseudocode''))) = [True, False, False]"
    and act_p: "map b_active (buttons (snd (activateTabValueInContainer
        (three_button_group ''pseudocode'') ''rust''))) = [False, False, True]"
    by (simp_all add: activate_defs three_button_group_def markup_button_def markup_panel_def)
  show ?thesis
    unfolding right left other click_r click_p
    by (simp add: act_r act_p)
qed


section \<open>Initialization and the header control\<close>

lemma plain_group_after:
  "plain_group g \<Longrightarrow> plain_group (snd (activateTabValueInContainer g w))"
  by (simp add: plain_group_def)

lemma default_tab_returns:
  assumes "identifiers_plain st"
  shows "snd (activateDefaultTab st k) = Returned"
proof (cases "k < length (groups st) \<and> truthy (group_id (groups st ! k))")
  case True
  then obtain gid where gid: "group_id (groups st ! k) = Some gid"
    by (auto simp: truthy_def split: option.splits)
  have "plain_group (groups st ! k)"
    using assms True by (simp add: identifiers_plain_def list_all_length)
  then have "plain_identifier gid"
    using gid by (simp add: plain_group_def)
  then show ?thesis
    using gid
    by (simp add: activateDefaultTab_def Let_def activate_for_group_returns_plain
        split: list.splits)
next
  case False
  then show ?thesis by (auto simp: activateDefaultTab_def Let_def)
qed

lemma default_tab_identifiers_plain:
  assumes "identifiers_plain st"
  shows "identifiers_plain (fst (activateDefaultTab st k))"
  using assms default_tab_keeps [of plain_group _ st k] plain_group_after
  by (simp add: identifiers_plain_def list_all_length)

lemma initialize_groups_returns:
  "identifiers_plain st \<Longrightarrow> snd (initialize_groups ks st) = Returned"
proof (induction ks arbitrary: st)
  case Nil
  then show ?case by simp
next
  case (Cons k ks)
  then show ?case
    using default_tab_returns [of st k] default_tab_identifiers_plain [of st k]
    by (simp add: initialize_groups_step del: initialize_groups.simps(2))
qed

lemma initialize_returns:
  "identifiers_plain st \<Longrightarrow> snd (initializeLanguageTabs st) = Returned"
  using initialize_groups_returns [of st "getLanguageTabContainerElements st"]
  by (cases "initialize_groups (getLanguageTabContainerElements st) st")
     (simp add: initializeLanguageTabs_def)

lemma initialize_snd:
  "snd (initializeLanguageTabs st) = snd (initialize_groups (getLanguageTabContainerElements st) st)"
  by (cases "initialize_groups (getLanguageTabContainerElements st) st")
     (auto simp: initializeLanguageTabs_def split: completion.splits)

lemma toggle_in_page_chrome:
  "chrome st' = chrome st \<Longrightarrow> toggle_in_page st' = toggle_in_page st"
  by (simp add: chrome_def toggle_in_page_def)

lemma toggle_label_chrome:
  "chrome st' = chrome st \<Longrightarrow> toggle_label st' = toggle_label st"
  by (simp add: chrome_def toggle_label_def)

lemma header_update_toggle_state [simp]:
  "right_buttons (updateLanguageTabsSyncToggleButtonState st) = right_buttons st"
  "left_buttons (updateLanguageTabsSyncToggleButtonState st) = left_buttons st"
  "isGlobalLanguageTabSyncEnabled (updateLanguageTabsSyncToggleButtonState st)
     = isGlobalLanguageTabSyncEnabled st"
  by (simp_all add: updateLanguageTabsSyncToggleButtonState_def split: option.splits)

lemma label_update_toggle_state:
  "languageTabsSyncToggleButtonElement st \<noteq> None \<Longrightarrow>
   toggle_label (updateLanguageTabsSyncToggleButtonState st)
     = Some (if isGlobalLanguageTabSyncEnabled st then ''Sync Tabs: On'' else ''Sync Tabs: Off'')"
  by (auto simp: updateLanguageTabsSyncToggleButtonState_def toggle_label_def)

lemma create_toggle_presence:
  assumes "\<not> toggle_in_page st"
  shows "toggle_in_page (createLanguageTabsSyncToggle st) \<longleftrightarrow>
    2 \<le> length (groups st) \<and> (right_buttons st \<noteq> None \<or> left_buttons st \<noteq> None)"
  using assms
  by (auto simp: createLanguageTabsSyncToggle_def getLanguageTabContainerElements_def
      toggle_in_page_def Let_def split: option.splits)

lemma create_toggle_label:
  assumes "\<not> toggle_in_page st"
    and "toggle_in_page (createLanguageTabsSyncToggle st)"
  shows "toggle_label (createLanguageTabsSyncToggle st)
    = Some (if isGlobalLanguageTabSyncEnabled st then ''Sync Tabs: On'' else ''Sync Tabs: Off'')"
proof -
  let ?st1 = "st\<lparr> languageTabsSyncToggleButtonElement :=
      Some \<lparr> title = ''Sync selected language across all tab groups'',
             t_active = False, aria_pressed = None, textContent = [] \<rparr> \<rparr>"
  have created: "2 \<le> length (groups st)" "right_buttons st \<noteq> None \<or> left_buttons st \<noteq> None"
    using assms create_toggle_presence by blast+
  have "toggle_label (createLanguageTabsSyncToggle st)
      = toggle_label (updateLanguageTabsSyncToggleButtonState ?st1)"
    using created
    by (auto simp: createLanguageTabsSyncToggle_def getLanguageTabContainerElements_def
        Let_def toggle_label_def split: option.splits)
  then show ?thesis
    using label_update_toggle_state [of ?st1] by simp
qed

lemma parsed_page_no_toggle: "\<not> toggle_in_page (parsed_page m)"
  by (auto simp: toggle_in_page_def parsed_page_def split: option.splits)

lemma sync_toggle_click_label:
  assumes "languageTabsSyncToggleButtonElement st \<noteq> None"
  shows "isGlobalLanguageTabSyncEnabled (syncToggleClick st) = (\<not> isGlobalLanguageTabSyncEnabled st) \<and>
    toggle_label (syncToggleClick st)
      = Some (if isGlobalLanguageTabSyncEnabled st then ''Sync Tabs: Off'' else ''Sync Tabs: On'')"
proof -
  let ?st1 = "st\<lparr> isGlobalLanguageTabSyncEnabled := \<not> isGlobalLanguageTabSyncEnabled st \<rparr>"
  let ?st2 = "updateLanguageTabsSyncToggleButtonState ?st1"
  have label: "toggle_label ?st2
      = Some (if isGlobalLanguageTabSyncEnabled st then ''Sync Tabs: Off'' else ''Sync Tabs: On'')"
    using label_update_toggle_state [of ?st1] assms by simp
  have flag: "isGlobalLanguageTabSyncEnabled ?st2 = (\<not> isGlobalLanguageTabSyncEnabled st)"
    by simp
  have "chrome (syncToggleClick st) = chrome ?st2"
    by (simp add: syncToggleClick_def Let_def)
  then show ?thesis
    using label flag toggle_label_chrome [of "syncToggleClick st" ?st2]
    by (simp add: chrome_def)
qed

lemma load_page_state:
  "chrome (fst (initialize_groups ks (parsed_page m))) = chrome (parsed_page m) \<and>
   length (groups (fst (initialize_groups ks (parsed_page m)))) = length (m_groups m) \<and>
   \<not> toggle_in_page (fst (initialize_groups ks (parsed_page m)))"
  using toggle_in_page_chrome [of "fst (initialize_groups ks (parsed_page m))" "parsed_page m"]
    parsed_page_no_toggle [of m]
  by (simp add: parsed_page_def)

lemma load_page_toggle_presence:
  assumes "snd (load_page m) = Returned"
  shows "toggle_in_page (fst (load_page m)) \<longleftrightarrow>
    2 \<le> length (m_groups m) \<and> (m_right_buttons m \<noteq> None \<or> m_left_buttons m \<noteq> None)"
proof -
  let ?st = "fst (initialize_groups (getLanguageTabContainerElements (parsed_page m)) (parsed_page m))"
  have "fst (load_page m) = createLanguageTabsSyncToggle ?st"
    using assms by (simp add: load_page_def initialize_cases initialize_snd)
  moreover have "chrome ?st = chrome (parsed_page m)" "length (groups ?st) = length (m_groups m)"
    "\<not> toggle_in_page ?st"
    using load_page_state by blast+
  moreover have "right_buttons ?st = right_buttons (parsed_page m)"
    "left_buttons ?st = left_buttons (parsed_page m)"
    using \<open>chrome ?st = chrome (parsed_page m)\<close> by (simp_all add: chrome_def)
  ultimately show ?thesis
    by (simp add: create_toggle_presence) (simp add: parsed_page_def)
qed

lemma load_page_threw_no_toggle:
  assumes "snd (load_page m) \<noteq> Returned"
  shows "\<not> toggle_in_page (fst (load_page m))"
proof -
  let ?st = "fst (initialize_groups (getLanguageTabContainerElements (parsed_page m)) (parsed_page m))"
  have "fst (load_page m) = ?st"
    using assms by (simp add: load_page_def initialize_cases initialize_snd)
  then show ?thesis
    using load_page_state by simp
qed

lemma load_page_toggle_needs_two_groups:
  "toggle_in_page (fst (load_page m)) \<Longrightarrow> 2 \<le> length (m_groups m)"
  using load_page_toggle_presence [of m] load_page_threw_no_toggle [of m] by blast

lemma load_page_label:
  assumes "toggle_in_page (fst (load_page m))"
  shows "toggle_label (fst (load_page m)) = Some ''Sync Tabs: Off'' \<and>
    \<not> isGlobalLanguageTabSyncEnabled (fst (load_page m))"
proof -
  let ?st = "fst (initialize_groups (getLanguageTabContainerElements (parsed_page m)) (parsed_page m))"
  have ret: "snd (load_page m) = Returned"
    using assms load_page_threw_no_toggle by blast
  then have eq: "fst (load_page m) = createLanguageTabsSyncToggle ?st"
    by (simp add: load_page_def initialize_cases initialize_snd)
  have st: "chrome ?st = chrome (parsed_page m)" "\<not> toggle_in_page ?st"
    using load_page_state by blast+
  then have off: "\<not> isGlobalLanguageTabSyncEnabled ?st"
    by (simp add: chrome_def parsed_page_def)
  have "toggle_label (createLanguageTabsSyncToggle ?st) = Some ''Sync Tabs: Off''"
    using create_toggle_label [of ?st] st(2) assms off by (simp add: eq)
  moreover have "\<not> isGlobalLanguageTabSyncEnabled (createLanguageTabsSyncToggle ?st)"
    using off by (simp add: createLanguageTabsSyncToggle_def Let_def split: option.splits)
  ultimately show ?thesis by (simp add: eq)
qed

lemma no_identifiers_plain:
  "list_all (\<lambda>g. group_id g = None) (m_groups m) \<Longrightarrow> identifiers_plain (parsed_page m)"
  by (simp add: identifiers_plain_def parsed_page_def plain_group_def list_all_iff)

text \<open>
  C9, as stated: after initialize the header control is in the page if and only if
  the page has two or more tab groups. The claim fails on a page without a menu
  bar: \<open>bare_markup\<close> has two groups, initialize returns, and no control is in the
  page (lines 102-107 return when neither button container exists).
\<close>

theorem sync_toggle_without_menu_bar_counterexample:
  "2 \<le> length (m_groups bare_markup) \<and> snd (load_page bare_markup) = Returned \<and>
   \<not> toggle_in_page (fst (load_page bare_markup))"
proof -
  have "identifiers_plain (parsed_page bare_markup)"
    by (rule no_identifiers_plain) (simp add: bare_markup_def lang_group_def)
  then have ret: "snd (load_page bare_markup) = Returned"
    by (simp add: load_page_def initialize_returns)
  then show ?thesis
    using load_page_toggle_presence [OF ret] by (simp add: bare_markup_def)
qed

text \<open>
  C9, amended: with 0 or 1 tab groups the header control is never created. When
  initialize returns, the control is in the page if and only if the page has two
  or more tab groups and the menu bar has a right or a left button container.
  When the control is in the page after initialize, its label is exactly
  "Sync Tabs: Off" and the mode is off; after every click on the control its
  label is "Sync Tabs: On" when the mode is then on and "Sync Tabs: Off" when it
  is then off.
\<close>

theorem sync_toggle_presence:
  "(length (m_groups m) < 2 \<longrightarrow> \<not> toggle_in_page (fst (load_page m))) \<and>
   (snd (load_page m) = Returned \<longrightarrow>
      (toggle_in_page (fst (load_page m)) \<longleftrightarrow>
         2 \<le> length (m_groups m) \<and> (m_right_buttons m \<noteq> None \<or> m_left_buttons m \<noteq> None))) \<and>
   (toggle_in_page (fst (load_page m)) \<longrightarrow>
      toggle_label (fst (load_page m)) = Some ''Sync Tabs: Off'' \<and>
      \<not> isGlobalLanguageTabSyncEnabled (fst (load_page m))) \<and>
   (\<forall>st. languageTabsSyncToggleButtonElement st \<noteq> None \<longrightarrow>
      toggle_label (syncToggleClick st)
        = Some (if isGlobalLanguageTabSyncEnabled (syncToggleClick st)
                then ''Sync Tabs: On'' else ''Sync Tabs: Off''))"
proof -
  have "length (m_groups m) < 2 \<longrightarrow> \<not> toggle_in_page (fst (load_page m))"
    using load_page_toggle_needs_two_groups [of m] by auto
  moreover have "snd (load_page m) = Returned \<longrightarrow>
      (toggle_in_page (fst (load_page m)) \<longleftrightarrow>
         2 \<le> length (m_groups m) \<and> (m_right_buttons m \<noteq> None \<or> m_left_buttons m \<noteq> None))"
    using load_page_toggle_presence [of m] by blast
  moreover have "toggle_in_page (fst (load_page m)) \<longrightarrow>
      toggle_label (fst (load_page m)) = Some ''Sync Tabs: Off'' \<and>
      \<not> isGlobalLanguageTabSyncEnabled (fst (load_page m))"
    using load_page_label [of m] by blast
  moreover have "\<forall>st. languageTabsSyncToggleButtonElement st \<noteq> None \<longrightarrow>
      toggle_label (syncToggleClick st)
        = Some (if isGlobalLanguageTabSyncEnabled (syncToggleClick st)
                then ''Sync Tabs: On'' else ''Sync Tabs: Off'')"
    using sync_toggle_click_label by simp
  ultimately show ?thesis by blast
qed

theorem sync_toggle_presence_witness:
  "snd (load_page (sample_markup [lang_group (Some ''lang'') ''rust'', lang_group None ''python'']))
     = Returned \<and>
   toggle_in_page (fst (load_page
     (sample_markup [lang_group (Some ''lang'') ''rust'', lang_group None ''python'']))) \<and>
   toggle_label (fst (load_page
     (sample_markup [lang_group (Some ''lang'') ''rust'', lang_group None ''python''])))
     = Some ''Sync Tabs: Off'' \<and>
   toggle_label (syncToggleClick (fst (load_page
     (sample_markup [lang_group (Some ''lang'') ''rust'', lang_group None ''python'']))))
     = Some ''Sync Tabs: On'' \<and>
   \<not> toggle_in_page (fst (load_page (sample_markup [lang_group (Some ''lang'') ''rust''])))"
proof -
  let ?m = "sample_markup [lang_group (Some ''lang'') ''rust'', lang_group None ''python'']"
  let ?one = "sample_markup [lang_group (Some ''lang'') ''rust'']"
  note two = sync_toggle_presence [of ?m]
  note one = sync_toggle_presence [of ?one]
  have "identifiers_plain (parsed_page ?m)"
    by (simp add: identifiers_plain_def plain_group_def parsed_page_def sample_markup_def
        lang_group_def)
  then have ret: "snd (load_page ?m) = Returned"
    by (simp add: load_page_def initialize_returns)
  have shape: "2 \<le> length (m_groups ?m)" "m_right_buttons ?m \<noteq> None" "length (m_groups ?one) < 2"
    by (simp_all add: sample_markup_def)
  have present: "toggle_in_page (fst (load_page ?m))"
    using two ret shape by blast
  then have label: "toggle_label (fst (load_page ?m)) = Some ''Sync Tabs: Off''"
    and off: "\<not> isGlobalLanguageTabSyncEnabled (fst (load_page ?m))"
    using two by blast+
  have el: "languageTabsSyncToggleButtonElement (fst (load_page ?m)) \<noteq> None"
    using label by (auto simp: toggle_label_def)
  have on: "isGlobalLanguageTabSyncEnabled (syncToggleClick (fst (load_page ?m)))"
    using sync_toggle_click_label [OF el] off by simp
  have "toggle_label (syncToggleClick (fst (load_page ?m))) = Some ''Sync Tabs: On''"
    using two [THEN conjunct2, THEN conjunct2, THEN conjunct2, rule_format, OF el] on
    by simp
  moreover have "\<not> toggle_in_page (fst (load_page ?one))"
    using one shape(3) by blast
  ultimately show ?thesis
    using ret present label by blast
qed


section \<open>Failed lookups and thrown errors\<close>

text \<open>
  A click on something that is no element, on an element outside every group, in
  a group without identifier, or on a button without value changes nothing and
  returns.
\<close>

lemma click_unresolved:
  assumes "t = NonElement \<or> closest_language_tabs st t = None \<or>
    (\<exists>i. closest_language_tabs st t = Some i \<and> \<not> truthy (group_id (groups st ! i))) \<or>
    \<not> truthy (target_value st t)"
  shows "handleTabClick st t = (st, Returned)"
  using assms by (auto simp: handleTabClick_def Let_def truthy_def)

text \<open>Where every group identifier of the page is plain, a click returns.\<close>

lemma click_returns_plain:
  assumes "identifiers_plain st"
  shows "snd (handleTabClick st t) = Returned"
proof (cases "closest_language_tabs st t")
  case None
  then show ?thesis by (simp add: click_unresolved)
next
  case (Some i)
  then have "i < length (groups st)"
    by (cases t) (auto split: if_splits)
  then have "plain_group (groups st ! i)"
    using assms by (simp add: identifiers_plain_def list_all_length)
  then show ?thesis
    using Some
    by (auto simp: handleTabClick_def Let_def truthy_def plain_group_def
        activate_for_group_returns_plain split: option.splits)
qed

text \<open>
  C10 says that no operation throws, for every group identifier, double quotes
  included. The identifier is pasted into the selector unescaped (line 58). On
  the page \<open>quote_markup\<close> the selector for the first group reads
  \<^verbatim>\<open>.language-tabs[data-language-tabs-group="""]\<close>, which is no selector:
  \<^verbatim>\<open>querySelectorAll\<close> throws a SyntaxError. Initialization throws at the first
  group and leaves the page as parsed: the second group gets no ARIA state and no
  header control is created, although the page has two groups and a menu bar. A
  click on a button of the first group throws too.
\<close>

theorem quote_in_identifier_throws:
  "parse_selector (group_selector [dquote]) = InvalidSelector \<and>
   load_page quote_markup = (parsed_page quote_markup, Threw SyntaxError) \<and>
   map aria_selected (buttons (groups (fst (load_page quote_markup)) ! 1)) = [None, None] \<and>
   \<not> toggle_in_page (fst (load_page quote_markup)) \<and>
   handleTabClick (parsed_page quote_markup) (TabButton 0 1)
     = (parsed_page quote_markup, Threw SyntaxError)"
proof -
  let ?st = "parsed_page quote_markup"
  have sel: "parse_selector (group_selector [dquote]) = InvalidSelector"
    by (simp add: parse_selector_def group_selector_def char_class_defs)
  have call: "activateTabValueForGroup ?st [dquote] v = (?st, Threw SyntaxError)" for v
    by (simp add: activateTabValueForGroup_def querySelectorAll_def sel)
  have gs: "groups ?st = [lang_group (Some [dquote]) ''rust'', lang_group (Some ''lang'') ''python'']"
    by (simp add: parsed_page_def quote_markup_def)
  have "activateDefaultTab ?st 0 = activateTabValueForGroup ?st [dquote] ''rust''"
    by (simp add: activateDefaultTab_def gs)
       (simp add: lang_group_def markup_button_def getLanguageTabButtons_def Let_def truthy_def)
  then have first: "activateDefaultTab ?st 0 = (?st, Threw SyntaxError)"
    by (simp add: call)
  have "getLanguageTabContainerElements ?st = [0, 1]"
    by (simp add: getLanguageTabContainerElements_def gs upt_rec [of 0] upt_rec [of 1])
  then have "initialize_groups (getLanguageTabContainerElements ?st) ?st = (?st, Threw SyntaxError)"
    by (simp add: first)
  then have load: "load_page quote_markup = (?st, Threw SyntaxError)"
    by (simp add: load_page_def initializeLanguageTabs_def)
  have aria: "map aria_selected (buttons (groups ?st ! 1)) = [None, None]"
    by (simp add: gs lang_group_def markup_button_def)
  have off: "\<not> isGlobalLanguageTabSyncEnabled ?st"
    by (simp add: parsed_page_def)
  have "handleTabClick ?st (TabButton 0 1) = activateTabValueForGroup ?st [dquote] ''python''"
    by (simp add: handleTabClick_def gs off)
       (simp add: lang_group_def markup_button_def Let_def truthy_def off)
  then have click: "handleTabClick ?st (TabButton 0 1) = (?st, Threw SyntaxError)"
    by (simp add: call)
  show ?thesis
    using sel load aria click parsed_page_no_toggle [of quote_markup] by simp
qed


theorem quote_in_identifier_throws_witness:
  "snd (load_page quote_markup) = Threw SyntaxError \<and>
   snd (handleTabClick (parsed_page quote_markup) (TabButton 0 1)) = Threw SyntaxError \<and>
   groups (fst (load_page quote_markup)) = m_groups quote_markup"
  using quote_in_identifier_throws by (simp add: parsed_page_def)

section \<open>Turning the global sync mode on\<close>

lemma find_in_list:
  assumes "j < length xs" and "P (xs ! j)" and "list_all (\<lambda>x. \<not> P x) (take j xs)"
  shows "find P xs = Some (xs ! j)"
  using assms
proof (induction xs arbitrary: j)
  case Nil
  then show ?case by simp
next
  case (Cons x xs)
  then show ?case by (cases j) auto
qed

lemma find_append_none:
  "list_all (\<lambda>x. \<not> P x) xs \<Longrightarrow> find P (xs @ ys) = find P ys"
  by (induction xs) auto

lemma find_append_some:
  "find P xs = Some x \<Longrightarrow> find P (xs @ ys) = Some x"
  by (induction xs) (auto split: if_splits)

lemma find_in_concat:
  assumes "i < length xss" and "find P (xss ! i) = Some x"
    and "list_all (\<lambda>xs. list_all (\<lambda>x. \<not> P x) xs) (take i xss)"
  shows "find P (concat xss) = Some x"
  using assms
proof (induction xss arbitrary: i)
  case Nil
  then show ?case by simp
next
  case (Cons xs xss)
  show ?case
  proof (cases i)
    case 0
    then show ?thesis using Cons.prems by (simp add: find_append_some)
  next
    case (Suc k)
    then show ?thesis
      using Cons.prems Cons.IH [of k] by (simp add: find_append_none)
  qed
qed

lemma first_active_value:
  assumes "first_active_at st i j"
  shows "getFirstActiveTabValue st = b_value (buttons (groups st ! i) ! j)"
proof -
  have "find b_active (buttons (groups st ! i)) = Some (buttons (groups st ! i) ! j)"
    using assms by (simp add: first_active_at_def find_in_list)
  then have "find b_active (map getLanguageTabButtons (groups st) ! i)
      = Some (buttons (groups st ! i) ! j)"
    using assms by (simp add: first_active_at_def getLanguageTabButtons_def)
  moreover have "list_all (\<lambda>xs. list_all (\<lambda>b. \<not> b_active b) xs)
      (take i (map getLanguageTabButtons (groups st)))"
    using assms
    by (simp add: first_active_at_def getLanguageTabButtons_def take_map list_all_iff)
  ultimately have "find b_active (concat (map getLanguageTabButtons (groups st)))
      = Some (buttons (groups st ! i) ! j)"
    using assms find_in_concat [of i "map getLanguageTabButtons (groups st)" b_active]
    by (simp add: first_active_at_def)
  then show ?thesis by (simp add: getFirstActiveTabValue_def)
qed

lemma no_active_value:
  assumes "list_all (\<lambda>g. active_buttons g = []) (groups st)"
  shows "getFirstActiveTabValue st = None"
proof -
  have "find b_active (concat (map getLanguageTabButtons (groups st))) = None"
    using assms
    by (auto simp: find_None_iff list_all_iff getLanguageTabButtons_def active_buttons_def
        filter_empty_conv)
  then show ?thesis by (simp add: getFirstActiveTabValue_def)
qed

lemma first_active_update_toggle_state [simp]:
  "getFirstActiveTabValue (updateLanguageTabsSyncToggleButtonState st) = getFirstActiveTabValue st"
  by (simp add: getFirstActiveTabValue_def)

lemma first_active_flag [simp]:
  "getFirstActiveTabValue (st\<lparr> isGlobalLanguageTabSyncEnabled := b \<rparr>) = getFirstActiveTabValue st"
  by (simp add: getFirstActiveTabValue_def)

lemma shows_value_after:
  "hasSelectedTabValue g v \<Longrightarrow> shows_value (snd (activateTabValueInContainer g v)) v"
  by (simp add: activate_present shows_value_def list_all_iff)

lemma globally_shows_value:
  assumes "k < length (groups st)" and "hasSelectedTabValue (groups st ! k) v"
  shows "shows_value (groups (activateTabValueGlobally st v) ! k) v"
  using assms by (simp add: groups_activateTabValueGlobally shows_value_after)

lemma sync_toggle_on:
  assumes "\<not> isGlobalLanguageTabSyncEnabled st"
  shows "syncToggleClick st =
    (let st2 = updateLanguageTabsSyncToggleButtonState (st\<lparr> isGlobalLanguageTabSyncEnabled := True \<rparr>)
     in if truthy (getFirstActiveTabValue st) then activateTabValueGlobally st2 (the (getFirstActiveTabValue st))
        else st2)"
  using assms by (simp add: syncToggleClick_def Let_def)

lemma click_in_sync_mode:
  assumes "isGlobalLanguageTabSyncEnabled st"
    and "i < length (groups st)" and "j < length (buttons (groups st ! i))"
    and "truthy (group_id (groups st ! i))"
    and "b_value (buttons (groups st ! i) ! j) = Some v" and "v \<noteq> []"
  shows "handleTabClick st (TabButton i j) = (activateTabValueGlobally st v, Returned)"
  using assms by (simp add: handleTabClick_def Let_def truthy_def)

section \<open>Identifiers inside the selector model\<close>









lemma identifiers_modelled_focused [simp]:
  "identifiers_modelled (st\<lparr> focused := f \<rparr>) = identifiers_modelled st"
  by (simp add: identifiers_modelled_def)


section \<open>Pages whose groups have no identifier\<close>

lemma initialize_groups_no_identifiers:
  "list_all (\<lambda>g. group_id g = None) (groups st) \<Longrightarrow> initialize_groups ks st = (st, Returned)"
proof (induction ks)
  case Nil
  then show ?case by simp
next
  case (Cons k ks)
  have "activateDefaultTab st k = (st, Returned)"
    using Cons.prems by (auto simp: activateDefaultTab_def Let_def truthy_def list_all_length)
  then show ?case using Cons by simp
qed

lemma load_page_no_identifiers:
  assumes "list_all (\<lambda>g. group_id g = None) (m_groups m)"
  shows "load_page m = (createLanguageTabsSyncToggle (parsed_page m), Returned)"
proof -
  have "list_all (\<lambda>g. group_id g = None) (groups (parsed_page m))"
    using assms by (simp add: parsed_page_def)
  then show ?thesis
    by (simp add: load_page_def initializeLanguageTabs_def initialize_groups_no_identifiers)
qed

section \<open>The invariant under every operation\<close>




section \<open>The global sync mode on loaded pages\<close>

lemma groups_globally_map:
  "groups (activateTabValueGlobally st v)
     = map (\<lambda>g. snd (activateTabValueInContainer g v)) (groups st)"
  by (rule nth_equalityI) (simp_all add: groups_activateTabValueGlobally)

lemma groups_initialize:
  "groups (fst (initializeLanguageTabs st))
     = groups (fst (initialize_groups (getLanguageTabContainerElements st) st))"
  by (simp add: initialize_cases)

lemma synced_mixed_page_state:
  "snd (load_page mixed_markup) = Returned \<and>
   isGlobalLanguageTabSyncEnabled synced_mixed_page \<and>
   groups synced_mixed_page
     = [snd (activateTabValueInContainer (lang_group None ''rust'') ''rust''),
        snd (activateTabValueInContainer (lang_group (Some ''lang'') ''rust'') ''rust'')]"
proof -
  let ?g0 = "lang_group None ''rust''"
  let ?g1 = "lang_group (Some ''lang'') ''rust''"
  let ?p = "parsed_page mixed_markup"
  let ?l = "fst (load_page mixed_markup)"
  have gp: "groups ?p = [?g0, ?g1]"
    by (simp add: parsed_page_def mixed_markup_def sample_markup_def)
  have "identifiers_plain ?p"
    by (simp add: identifiers_plain_def gp) (simp add: plain_group_def lang_group_def)
  then have ret: "snd (load_page mixed_markup) = Returned"
    by (simp add: load_page_def initialize_returns)
  have d0: "activateDefaultTab ?p 0 = (?p, Returned)"
    by (simp add: activateDefaultTab_def gp) (simp add: lang_group_def truthy_def)
  have "activateDefaultTab ?p 1 = activateTabValueForGroup ?p ''lang'' ''rust''"
    by (simp add: activateDefaultTab_def gp)
       (simp add: lang_group_def markup_button_def getLanguageTabButtons_def Let_def truthy_def)
  also have "\<dots> = (?p\<lparr> groups := fold (activate_at ''rust'') [1] [?g0, ?g1] \<rparr>, Returned)"
    by (simp add: activateTabValueForGroup_plain gp upt_rec [of 0] upt_rec [of 1])
       (simp add: lang_group_def)
  finally have d1: "activateDefaultTab ?p 1
      = (?p\<lparr> groups := [?g0, snd (activateTabValueInContainer ?g1 ''rust'')] \<rparr>, Returned)"
    by (simp add: activate_at_def)
  have "getLanguageTabContainerElements ?p = [0, 1]"
    by (simp add: getLanguageTabContainerElements_def gp upt_rec [of 0] upt_rec [of 1])
  moreover have "initialize_groups [0, 1] ?p
      = (?p\<lparr> groups := [?g0, snd (activateTabValueInContainer ?g1 ''rust'')] \<rparr>, Returned)"
    by (simp only: initialize_groups_step d0 d1 snd_conv fst_conv initialize_groups.simps(1)) simp
  ultimately have "initialize_groups (getLanguageTabContainerElements ?p) ?p
      = (?p\<lparr> groups := [?g0, snd (activateTabValueInContainer ?g1 ''rust'')] \<rparr>, Returned)"
    by (simp only:)
  then have gl: "groups ?l = [?g0, snd (activateTabValueInContainer ?g1 ''rust'')]"
    by (simp add: load_page_def groups_initialize)
  have shape: "2 \<le> length (m_groups mixed_markup)" "m_right_buttons mixed_markup \<noteq> None"
    by (simp_all add: mixed_markup_def sample_markup_def)
  have present: "toggle_in_page ?l"
    using load_page_toggle_presence [OF ret] shape by simp
  then have label: "toggle_label ?l = Some ''Sync Tabs: Off''"
    and off: "\<not> isGlobalLanguageTabSyncEnabled ?l"
    using load_page_label [of mixed_markup] by simp_all
  have el: "languageTabsSyncToggleButtonElement ?l \<noteq> None"
    using label by (auto simp: toggle_label_def)
  have on: "isGlobalLanguageTabSyncEnabled synced_mixed_page"
    using sync_toggle_click_label [OF el] off by (simp add: synced_mixed_page_def)
  have first: "first_active_at ?l 0 0"
    by (simp add: first_active_at_def gl) (simp add: lang_group_def markup_button_def)
  have "b_value (buttons (groups ?l ! 0) ! 0) = Some ''rust''"
    by (simp add: gl) (simp add: lang_group_def markup_button_def)
  then have "getFirstActiveTabValue ?l = Some ''rust''"
    using first_active_value [OF first] by simp
  then have eq: "synced_mixed_page = activateTabValueGlobally
      (updateLanguageTabsSyncToggleButtonState (?l\<lparr> isGlobalLanguageTabSyncEnabled := True \<rparr>)) ''rust''"
    using off by (simp add: synced_mixed_page_def sync_toggle_on truthy_def Let_def)
  have "groups synced_mixed_page
      = [snd (activateTabValueInContainer ?g0 ''rust''),
         snd (activateTabValueInContainer (snd (activateTabValueInContainer ?g1 ''rust'')) ''rust'')]"
    unfolding eq groups_globally_map by (simp add: gl)
  then have gsync: "groups synced_mixed_page
      = [snd (activateTabValueInContainer ?g0 ''rust''), snd (activateTabValueInContainer ?g1 ''rust'')]"
    by (simp add: activate_twice_snd)
  show ?thesis
    using ret on gsync by blast
qed

lemma loaded_blank_page_state:
  "snd (load_page blank_markup) = Returned \<and>
   toggle_in_page loaded_blank_page \<and>
   \<not> isGlobalLanguageTabSyncEnabled loaded_blank_page \<and>
   groups loaded_blank_page = [blank_group True, blank_group False]"
proof -
  have none: "list_all (\<lambda>g. group_id g = None) (m_groups blank_markup)"
    by (simp add: blank_markup_def sample_markup_def blank_group_def)
  have load: "load_page blank_markup = (createLanguageTabsSyncToggle (parsed_page blank_markup), Returned)"
    using none by (rule load_page_no_identifiers)
  then have ret: "snd (load_page blank_markup) = Returned"
    by simp
  have shape: "2 \<le> length (m_groups blank_markup)" "m_right_buttons blank_markup \<noteq> None"
    by (simp_all add: blank_markup_def sample_markup_def)
  have present: "toggle_in_page loaded_blank_page"
    using load_page_toggle_presence [OF ret] shape by (simp add: loaded_blank_page_def)
  then have off: "\<not> isGlobalLanguageTabSyncEnabled loaded_blank_page"
    using load_page_label [of blank_markup] by (simp add: loaded_blank_page_def)
  have "groups loaded_blank_page = [blank_group True, blank_group False]"
    by (simp add: loaded_blank_page_def load)
       (simp add: parsed_page_def blank_markup_def sample_markup_def)
  with ret present off show ?thesis by blast
qed

text \<open>
  C7, as stated: while the global sync mode is on, any click on a button propagates
  the button's value to every group of the page; and turning the mode on calls
  activateEverywhere with the value of the first active button whenever some
  group has an active button. Both parts fail on pages as page load leaves them.
  On \<open>synced_mixed_page\<close> the mode is on; a click on python in the group without
  identifier changes nothing, and the other group, which has python, does not
  show it (line 164 returns when the group has no identifier). On
  \<open>loaded_blank_page\<close> the first active button carries the empty string; the click
  that turns the mode on changes no group, and the second group, which has a
  button with that value, does not show it (line 121 returns on a missing or
  empty value).
\<close>

theorem sync_click_without_identifier_counterexample:
  "snd (load_page mixed_markup) = Returned \<and>
   isGlobalLanguageTabSyncEnabled synced_mixed_page \<and>
   target_value synced_mixed_page (TabButton 0 1) = Some ''python'' \<and>
   hasSelectedTabValue (groups synced_mixed_page ! 1) ''python'' \<and>
   handleTabClick synced_mixed_page (TabButton 0 1) = (synced_mixed_page, Returned) \<and>
   \<not> shows_value (groups (fst (handleTabClick synced_mixed_page (TabButton 0 1))) ! 1) ''python'' \<and>
   snd (load_page blank_markup) = Returned \<and>
   toggle_in_page loaded_blank_page \<and>
   \<not> isGlobalLanguageTabSyncEnabled loaded_blank_page \<and>
   first_active_at loaded_blank_page 0 0 \<and>
   b_value (buttons (groups loaded_blank_page ! 0) ! 0) = Some [] \<and>
   hasSelectedTabValue (groups loaded_blank_page ! 1) [] \<and>
   isGlobalLanguageTabSyncEnabled (syncToggleClick loaded_blank_page) \<and>
   groups (syncToggleClick loaded_blank_page) = groups loaded_blank_page \<and>
   \<not> shows_value (groups (syncToggleClick loaded_blank_page) ! 1) []"
proof -
  let ?s = synced_mixed_page
  let ?b = loaded_blank_page
  have ret1: "snd (load_page mixed_markup) = Returned" and on: "isGlobalLanguageTabSyncEnabled ?s"
    and gs: "groups ?s
     = [snd (activateTabValueInContainer (lang_group None ''rust'') ''rust''),
        snd (activateTabValueInContainer (lang_group (Some ''lang'') ''rust'') ''rust'')]"
    using synced_mixed_page_state by blast+
  have tv: "target_value ?s (TabButton 0 1) = Some ''python''"
    by (simp add: gs) (simp add: activate_defs lang_group_def markup_button_def markup_panel_def)
  have has: "hasSelectedTabValue (groups ?s ! 1) ''python''"
    by (simp add: gs) (simp add: activate_defs lang_group_def markup_button_def markup_panel_def)
  have "\<not> truthy (group_id (groups ?s ! 0))"
    by (simp add: gs) (simp add: truthy_def lang_group_def)
  moreover have "closest_language_tabs ?s (TabButton 0 1) = Some 0"
    by (simp add: gs) (simp add: activate_defs lang_group_def markup_button_def markup_panel_def)
  ultimately have click: "handleTabClick ?s (TabButton 0 1) = (?s, Returned)"
    by (simp add: click_unresolved)
  have "\<not> shows_value (groups ?s ! 1) ''python''"
    by (simp add: gs)
       (simp add: shows_value_def activate_defs lang_group_def markup_button_def markup_panel_def)
  then have unshown: "\<not> shows_value (groups (fst (handleTabClick ?s (TabButton 0 1))) ! 1) ''python''"
    unfolding click by simp
  have ret2: "snd (load_page blank_markup) = Returned" and present: "toggle_in_page ?b"
    and off: "\<not> isGlobalLanguageTabSyncEnabled ?b"
    and gb: "groups ?b = [blank_group True, blank_group False]"
    using loaded_blank_page_state by blast+
  have first: "first_active_at ?b 0 0"
    by (simp add: first_active_at_def gb) (simp add: blank_group_def markup_button_def)
  have val: "b_value (buttons (groups ?b ! 0) ! 0) = Some []"
    by (simp add: gb) (simp add: blank_group_def markup_button_def)
  have has2: "hasSelectedTabValue (groups ?b ! 1) []"
    by (simp add: gb)
       (simp add: hasSelectedTabValue_def getLanguageTabButtons_def blank_group_def markup_button_def)
  have "getFirstActiveTabValue ?b = Some []"
    using first_active_value [OF first] val by simp
  then have toggled: "syncToggleClick ?b
      = updateLanguageTabsSyncToggleButtonState (?b\<lparr> isGlobalLanguageTabSyncEnabled := True \<rparr>)"
    using off by (simp add: sync_toggle_on truthy_def Let_def)
  then have same: "groups (syncToggleClick ?b) = groups ?b"
    and on2: "isGlobalLanguageTabSyncEnabled (syncToggleClick ?b)"
    by simp_all
  have "\<not> shows_value (groups ?b ! 1) []"
    by (simp add: gb) (simp add: shows_value_def blank_group_def markup_button_def)
  then have unshown2: "\<not> shows_value (groups (syncToggleClick ?b) ! 1) []"
    by (simp add: same)
  show ?thesis
    using ret1 on tv has click unshown ret2 present off first val has2 on2 same unshown2
    by blast
qed

text \<open>
  C7, amended. When the global sync mode is turned on and the first active button
  in page order carries a non-empty value v, the click on the control is
  activateEverywhere(v) on the page with the mode on and the control updated, so
  that every group with v among its buttons shows v. When no group has an active
  button, only the mode and the control change. While the mode is on, a click on a
  button with a non-empty value w, in a group that has a non-empty identifier, is
  activateEverywhere(w): every group with w among its buttons shows w.
\<close>

theorem sync_mode_propagates:
  "(\<not> isGlobalLanguageTabSyncEnabled st \<and> first_active_at st i j \<and>
      b_value (buttons (groups st ! i) ! j) = Some v \<and> v \<noteq> [] \<longrightarrow>
      syncToggleClick st
        = activateTabValueGlobally
            (updateLanguageTabsSyncToggleButtonState (st\<lparr> isGlobalLanguageTabSyncEnabled := True \<rparr>)) v \<and>
      isGlobalLanguageTabSyncEnabled (syncToggleClick st) \<and>
      (\<forall>k < length (groups st). hasSelectedTabValue (groups st ! k) v \<longrightarrow>
         shows_value (groups (syncToggleClick st) ! k) v)) \<and>
   (\<not> isGlobalLanguageTabSyncEnabled st \<and> list_all (\<lambda>g. active_buttons g = []) (groups st) \<longrightarrow>
      syncToggleClick st
        = updateLanguageTabsSyncToggleButtonState (st\<lparr> isGlobalLanguageTabSyncEnabled := True \<rparr>) \<and>
      groups (syncToggleClick st) = groups st) \<and>
   (isGlobalLanguageTabSyncEnabled st \<and> i' < length (groups st) \<and>
      j' < length (buttons (groups st ! i')) \<and> truthy (group_id (groups st ! i')) \<and>
      b_value (buttons (groups st ! i') ! j') = Some w \<and> w \<noteq> [] \<longrightarrow>
      handleTabClick st (TabButton i' j') = (activateTabValueGlobally st w, Returned) \<and>
      (\<forall>k < length (groups st). hasSelectedTabValue (groups st ! k) w \<longrightarrow>
         shows_value (groups (fst (handleTabClick st (TabButton i' j'))) ! k) w))"
proof -
  let ?st2 = "updateLanguageTabsSyncToggleButtonState (st\<lparr> isGlobalLanguageTabSyncEnabled := True \<rparr>)"
  have on: "syncToggleClick st = activateTabValueGlobally ?st2 v \<and>
      isGlobalLanguageTabSyncEnabled (syncToggleClick st) \<and>
      (\<forall>k < length (groups st). hasSelectedTabValue (groups st ! k) v \<longrightarrow>
         shows_value (groups (syncToggleClick st) ! k) v)"
    if off: "\<not> isGlobalLanguageTabSyncEnabled st" and first: "first_active_at st i j"
      and val: "b_value (buttons (groups st ! i) ! j) = Some v" "v \<noteq> []"
  proof -
    have "getFirstActiveTabValue st = Some v"
      using first_active_value [OF first] val by simp
    then have eq: "syncToggleClick st = activateTabValueGlobally ?st2 v"
      using off val by (simp add: sync_toggle_on truthy_def Let_def)
    have "chrome (syncToggleClick st) = chrome ?st2"
      by (simp add: eq)
    then have flag: "isGlobalLanguageTabSyncEnabled (syncToggleClick st)"
      by (simp add: chrome_def)
    have "shows_value (groups (syncToggleClick st) ! k) v"
      if "k < length (groups st)" "hasSelectedTabValue (groups st ! k) v" for k
      using globally_shows_value [of k ?st2 v] that by (simp add: eq)
    with eq flag show ?thesis by blast
  qed
  have none: "syncToggleClick st = ?st2 \<and> groups (syncToggleClick st) = groups st"
    if off: "\<not> isGlobalLanguageTabSyncEnabled st"
      and no: "list_all (\<lambda>g. active_buttons g = []) (groups st)"
    using off no_active_value [OF no] by (simp add: sync_toggle_on truthy_def Let_def)
  have click: "handleTabClick st (TabButton i' j') = (activateTabValueGlobally st w, Returned) \<and>
      (\<forall>k < length (groups st). hasSelectedTabValue (groups st ! k) w \<longrightarrow>
         shows_value (groups (fst (handleTabClick st (TabButton i' j'))) ! k) w)"
    if "isGlobalLanguageTabSyncEnabled st" "i' < length (groups st)"
      "j' < length (buttons (groups st ! i'))" "truthy (group_id (groups st ! i'))"
      "b_value (buttons (groups st ! i') ! j') = Some w" "w \<noteq> []"
  proof -
    have eq: "handleTabClick st (TabButton i' j') = (activateTabValueGlobally st w, Returned)"
      using that by (rule click_in_sync_mode)
    then show ?thesis
      by (simp add: globally_shows_value)
  qed
  show ?thesis
    using on none click by blast
qed


theorem sync_mode_propagates_witness:
  "map (\<lambda>g. map b_active (buttons g))
     (groups (syncToggleClick
        (sample_page False [lang_group (Some ''a'') ''rust'', lang_group (Some ''b'') ''python''])))
     = [[True, False], [True, False]] \<and>
   isGlobalLanguageTabSyncEnabled (syncToggleClick
     (sample_page False [lang_group (Some ''a'') ''rust'', lang_group (Some ''b'') ''python''])) \<and>
   map (\<lambda>g. map b_active (buttons g))
     (groups (fst (handleTabClick (syncToggleClick
        (sample_page False [lang_group (Some ''a'') ''rust'', lang_group (Some ''b'') ''python'']))
        (TabButton 1 1))))
     = [[False, True], [False, True]]"
proof -
  let ?st = "sample_page False [lang_group (Some ''a'') ''rust'', lang_group (Some ''b'') ''python'']"
  let ?on = "syncToggleClick ?st"
  have gs: "groups ?st = [lang_group (Some ''a'') ''rust'', lang_group (Some ''b'') ''python'']"
    and off: "\<not> isGlobalLanguageTabSyncEnabled ?st"
    by (simp_all add: sample_page_def parsed_page_def sample_markup_def)
  have first: "first_active_at ?st 0 0"
    by (simp add: first_active_at_def gs) (simp add: lang_group_def markup_button_def)
  have val: "b_value (buttons (groups ?st ! 0) ! 0) = Some ''rust''"
    by (simp add: gs) (simp add: lang_group_def markup_button_def)
  have pre1: "\<not> isGlobalLanguageTabSyncEnabled ?st \<and> first_active_at ?st 0 0 \<and>
      b_value (buttons (groups ?st ! 0) ! 0) = Some ''rust'' \<and> ''rust'' \<noteq> []"
    using off first val by simp
  note turned_on = sync_mode_propagates [where st = ?st and i = 0 and j = 0 and v = "''rust''",
      THEN conjunct1, rule_format, OF pre1]
  have eq1: "?on = activateTabValueGlobally
      (updateLanguageTabsSyncToggleButtonState (?st\<lparr> isGlobalLanguageTabSyncEnabled := True \<rparr>)) ''rust''"
    and flag: "isGlobalLanguageTabSyncEnabled ?on"
    using turned_on by blast+
  have g_on: "groups ?on =
      [snd (activateTabValueInContainer (lang_group (Some ''a'') ''rust'') ''rust''),
       snd (activateTabValueInContainer (lang_group (Some ''b'') ''python'') ''rust'')]"
    by (simp add: eq1 groups_globally_map gs)
  have shown1: "map (\<lambda>g. map b_active (buttons g)) (groups ?on) = [[True, False], [True, False]]"
    unfolding g_on by (simp add: activate_defs lang_group_def markup_button_def markup_panel_def)
  have pre3: "isGlobalLanguageTabSyncEnabled ?on \<and> 1 < length (groups ?on) \<and>
      1 < length (buttons (groups ?on ! 1)) \<and> truthy (group_id (groups ?on ! 1)) \<and>
      b_value (buttons (groups ?on ! 1) ! 1) = Some ''python'' \<and> ''python'' \<noteq> []"
    using flag unfolding g_on
    by (simp add: activate_defs lang_group_def markup_button_def markup_panel_def truthy_def)
  note clicked = sync_mode_propagates [where st = ?on and i' = 1 and j' = 1 and w = "''python''",
      THEN conjunct2, THEN conjunct2, rule_format, OF pre3]
  have eq3: "handleTabClick ?on (TabButton 1 1) = (activateTabValueGlobally ?on ''python'', Returned)"
    using clicked by blast
  have "map (\<lambda>g. map b_active (buttons g)) (groups (activateTabValueGlobally ?on ''python''))
      = [[False, True], [False, True]]"
    unfolding groups_globally_map g_on
    by (simp add: activate_defs lang_group_def markup_button_def markup_panel_def)
  then have shown3: "map (\<lambda>g. map b_active (buttons g)) (groups (fst (handleTabClick ?on (TabButton 1 1))))
      = [[False, True], [False, True]]"
    unfolding eq3 by simp
  show ?thesis
    using shown1 flag shown3 by blast
qed

end
